theory Spec2Isabelle
  imports Main
begin

section \<open>The authorization interceptor of common/authorization/interceptor.go\<close>

text \<open>
  The interceptor is embedded as a function from its configuration and the arguments of
  one unary call to the value it returns, paired with the list of effects it performs, in
  the order of the source: calls of the collaborators (audience getter, claim mapper,
  authorizer, forwarded handler), logger entries, counter increments and timer
  recordings. The collaborators are parameters of the model: total functions of their
  arguments. A Go pointer or interface that may be nil is an \<open>option\<close>.
\<close>

subsection \<open>Go runtime panics\<close>

datatype panic = IndexOutOfRange | NilPointerDereference

text \<open>\<open>xs[i]\<close> on a slice: a run-time panic when \<open>i\<close> is out of range.\<close>

definition go_index :: "'a list \<Rightarrow> nat \<Rightarrow> panic + 'a" where
  "go_index xs i = (if i < length xs then Inr (xs ! i) else Inl IndexOutOfRange)"

subsection \<open>Transport-level peer state (crypto/x509, crypto/tls, grpc credentials and peer)\<close>

text \<open>
  Only the fields the package reads are kept: the subject of a certificate, the verified
  chains of a connection state, the auth info of a peer. A chain is a slice of
  certificate pointers.
\<close>

record pkix_Name =
  CommonName :: string
  Organization :: "string list"

record Certificate =
  Subject :: pkix_Name

record ConnectionState =
  VerifiedChains :: "Certificate option list list"

record TLSInfo =
  State :: ConnectionState

text \<open>
  The dynamic type of \<open>peer.Peer.AuthInfo\<close>: the type assertion to
  \<open>credentials.TLSInfo\<close> succeeds on the second constructor only.
\<close>

datatype credentials_AuthInfo = NoCredentials | TLSInfoCredentials TLSInfo | OtherCredentials string

record Peer =
  peer_AuthInfo :: credentials_AuthInfo

subsection \<open>Requests, responses and errors\<close>

text \<open>
  A value of type \<open>interface{}\<close> used as request or response: nil, a payload that does
  not implement \<open>hasNamespace\<close>, or a payload whose \<open>GetNamespace()\<close> returns the first
  argument.
\<close>

datatype message = NilMessage | Opaque string | WithNamespace string string

text \<open>
  A non-nil Go \<open>error\<close>: a \<open>serviceerror.PermissionDenied\<close> with its message and reason,
  or any other error with its text.
\<close>

datatype error = PermissionDenied string string | OtherError string

definition RequestUnauthorized :: string where
  "RequestUnauthorized = ''Request unauthorized.''"

definition errUnauthorized :: error where
  "errUnauthorized = PermissionDenied RequestUnauthorized ''''"

subsection \<open>The per-call context\<close>

text \<open>
  A \<open>context.Context\<close> as the interceptor sees it: the incoming metadata (a map from
  header names to value lists, absent when \<open>metadata.FromIncomingContext\<close> reports
  \<open>ok = false\<close>), the peer (absent when \<open>peer.FromContext\<close> reports \<open>ok = false\<close>), and
  the chain of values attached by \<open>context.WithValue\<close>, innermost first. The two
  keys of this package are \<open>MappedClaims\<close> and \<open>AuthHeader\<close>; the type of claims is a
  parameter, since the interceptor never looks inside a \<open>Claims\<close> value.
\<close>

datatype ctx_key = MappedClaims | AuthHeader | OtherKey string

datatype 'c ctx_value = ClaimsValue "'c option" | StringValue string

record 'c Context =
  incoming_metadata :: "(string \<rightharpoonup> string list) option"
  peer :: "Peer option"
  ctx_values :: "(ctx_key \<times> 'c ctx_value) list"

definition WithValue :: "'c Context \<Rightarrow> ctx_key \<Rightarrow> 'c ctx_value \<Rightarrow> 'c Context" where
  "WithValue ctx k v = ctx\<lparr>ctx_values := (k, v) # ctx_values ctx\<rparr>"

definition Value :: "'c Context \<Rightarrow> ctx_key \<Rightarrow> 'c ctx_value option" where
  "Value ctx k = map_of (ctx_values ctx) k"

text \<open>\<open>md[name]\<close> on a Go map: the nil slice when the key is missing.\<close>

definition md_get :: "(string \<rightharpoonup> string list) \<Rightarrow> string \<Rightarrow> string list" where
  "md_get md name = (case md name of None \<Rightarrow> [] | Some vs \<Rightarrow> vs)"

subsection \<open>The types of the authorization package\<close>

text \<open>
  Modelled from the spec: \<open>AuthInfo\<close>, \<open>CallTarget\<close>, \<open>Decision\<close>, \<open>Result\<close> and the
  interfaces \<open>ClaimMapper\<close>, \<open>ClaimMapperWithAuthInfoRequired\<close> and \<open>Authorizer\<close> are
  declared in files of the package outside the sources at hand; the fields are those
  the interceptor writes and reads.
\<close>

record AuthInfo =
  AuthToken :: string
  TLSSubject :: "pkix_Name option"
  TLSConnection :: "TLSInfo option"
  ExtraData :: string
  Audience :: string

record CallTarget =
  Namespace :: string
  APIName :: string
  Request :: message

datatype Decision = DecisionDeny | DecisionAllow

record Result =
  Decision :: Decision
  Reason :: string

record UnaryServerInfo =
  FullMethod :: string

text \<open>
  A claim mapper: its \<open>GetClaims\<close> method, returning a claims pointer and an error, and
  the optional interface \<open>ClaimMapperWithAuthInfoRequired\<close> (\<open>None\<close> when the mapper
  does not implement it, otherwise what \<open>AuthInfoRequired()\<close> returns).
\<close>

record 'c ClaimMapper =
  GetClaims :: "AuthInfo \<Rightarrow> 'c option \<times> error option"
  AuthInfoRequired :: "bool option"

type_synonym 'c Authorizer = "'c Context \<Rightarrow> 'c option \<Rightarrow> CallTarget \<Rightarrow> Result \<times> error option"

type_synonym 'c JWTAudienceMapper = "'c Context \<Rightarrow> message \<Rightarrow> UnaryServerInfo \<Rightarrow> string"

type_synonym 'c UnaryHandler = "'c Context \<Rightarrow> message \<Rightarrow> message \<times> error option"

subsection \<open>Metrics\<close>

text \<open>
  Modelled from the spec: the metrics package (tags, metric definitions, the handler
  with \<open>WithTags\<close>, \<open>Counter\<close> and \<open>Timer\<close>) is declared outside the sources at hand.
  A tag is represented by the constructor call that builds it, an operation and a metric
  by the name of its definition, and a handler by the list of tags it was scoped with.
\<close>

datatype operation = AuthorizationScope

datatype tag = OperationTag operation | NamespaceTag string | NamespaceUnknownTag

datatype metric_name =
  ServiceErrAuthorizeFailedCounter | ServiceErrUnauthorizedCounter | ServiceAuthorizationLatency

type_synonym metrics_Handler = "tag list"

definition WithTags :: "metrics_Handler \<Rightarrow> tag list \<Rightarrow> metrics_Handler" where
  "WithTags h ts = h @ ts"

subsection \<open>Effects\<close>

text \<open>
  What one call of the interceptor does besides returning: each collaborator call with
  its arguments, each logger entry, each counter increment and each timer recording
  (the recorded duration is wall-clock time and is left out).
\<close>

datatype 'c event =
    AudienceCall "'c Context" message UnaryServerInfo
  | GetClaimsCall AuthInfo
  | LoggerError string error
  | CounterRecord metrics_Handler metric_name int
  | TimerRecord metrics_Handler metric_name
  | AuthorizeCall "'c Context" "'c option" CallTarget
  | HandlerCall "'c Context" message

subsection \<open>The interceptor\<close>

record 'c interceptor =
  authorizer :: "'c Authorizer option"
  claimMapper :: "'c ClaimMapper option"
  metricsHandler :: metrics_Handler
  audienceGetter :: "'c JWTAudienceMapper option"
  authHeaderName :: string
  authExtraHeaderName :: string

text \<open>
  The values of one incoming header: \<open>md[name]\<close> when
  \<open>metadata.FromIncomingContext\<close> reports \<open>ok\<close>, the nil slice otherwise.
\<close>

definition header_values :: "'c Context \<Rightarrow> string \<Rightarrow> string list" where
  "header_values ctx name =
     (case incoming_metadata ctx of None \<Rightarrow> [] | Some md \<Rightarrow> md_get md name)"

definition TLSInfoFormContext :: "'c Context \<Rightarrow> TLSInfo option" where
  "TLSInfoFormContext ctx =
     (case peer ctx of
        None \<Rightarrow> None
      | Some p \<Rightarrow>
          (case peer_AuthInfo p of
             TLSInfoCredentials tlsInfo \<Rightarrow> Some tlsInfo
           | _ \<Rightarrow> None))"

definition PeerCert :: "TLSInfo option \<Rightarrow> panic + Certificate option" where
  "PeerCert tlsInfo =
     (case tlsInfo of
        None \<Rightarrow> Inr None
      | Some t \<Rightarrow>
          if length (VerifiedChains (State t)) = 0 then Inr None
          else
            (case go_index (VerifiedChains (State t)) 0 of
               Inl p \<Rightarrow> Inl p
             | Inr chain \<Rightarrow>
                 if length chain = 0 then Inr None
                 else
                   (case go_index (VerifiedChains (State t)) 0 of
                      Inl p \<Rightarrow> Inl p
                    | Inr chain0 \<Rightarrow> go_index chain0 0)))"

definition getMetricsHandler ::
  "'c interceptor \<Rightarrow> operation \<Rightarrow> string \<Rightarrow> metrics_Handler" where
  "getMetricsHandler a operation namespace =
     (if namespace \<noteq> ''''
      then WithTags (metricsHandler a) [OperationTag operation, NamespaceTag namespace]
      else WithTags (metricsHandler a) [OperationTag operation, NamespaceUnknownTag])"

text \<open>
  \<open>authorize\<close>: the authorizer is called, then the deferred function records the
  latency timer. Calling the method of a nil authorizer would panic, the deferred
  function running all the same.
\<close>

definition authorize ::
  "'c interceptor \<Rightarrow> 'c Context \<Rightarrow> 'c option \<Rightarrow> CallTarget \<Rightarrow> metrics_Handler
     \<Rightarrow> (panic + Result \<times> error option) \<times> 'c event list" where
  "authorize a ctx claims callTarget mh =
     (case authorizer a of
        None \<Rightarrow> (Inl NilPointerDereference, [TimerRecord mh ServiceAuthorizationLatency])
      | Some az \<Rightarrow>
          (Inr (az ctx claims callTarget),
           [AuthorizeCall ctx claims callTarget, TimerRecord mh ServiceAuthorizationLatency]))"

definition logAuthError :: "error \<Rightarrow> 'c event list" where
  "logAuthError err = [LoggerError ''Authorization error'' err]"

text \<open>
  How a block of the interceptor's body ends: it returns from the function with an
  error, it falls through to the next block with the current claims and context, or it
  panics.
\<close>

datatype 'c flow = Return error | Continue "'c option" "'c Context" | Panicked panic

text \<open>
  The first block of \<open>Interceptor\<close> (\<open>if a.claimMapper != nil && a.authorizer != nil\<close>):
  evidence gathering and claim mapping.
\<close>

definition Interceptor_claims ::
  "'c interceptor \<Rightarrow> 'c Context \<Rightarrow> message \<Rightarrow> UnaryServerInfo \<Rightarrow> 'c flow \<times> 'c event list" where
  "Interceptor_claims a ctx req info =
     (case claimMapper a of
        None \<Rightarrow> (Continue None ctx, [])
      | Some cm \<Rightarrow>
          if authorizer a = None then (Continue None ctx, [])
          else
            let authHeaders = header_values ctx (authHeaderName a);
                authExtraHeaders = header_values ctx (authExtraHeaderName a);
                tlsConnection = TLSInfoFormContext ctx
            in
              (case PeerCert tlsConnection of
                 Inl p \<Rightarrow> (Panicked p, [])
               | Inr clientCert \<Rightarrow>
                   let tlsSubject = map_option Subject clientCert;
                       authInfoRequired =
                         (case AuthInfoRequired cm of None \<Rightarrow> True | Some r \<Rightarrow> r)
                   in
                     if tlsSubject \<noteq> None \<or> length authHeaders > 0 \<or> \<not> authInfoRequired
                     then
                       (case (if length authHeaders > 0 then go_index authHeaders 0
                              else Inr '''') of
                          Inl p \<Rightarrow> (Panicked p, [])
                        | Inr authHeader \<Rightarrow>
                            (case (if length authExtraHeaders > 0
                                   then go_index authExtraHeaders 0 else Inr '''') of
                               Inl p \<Rightarrow> (Panicked p, [])
                             | Inr authExtraHeader \<Rightarrow>
                                 let audience =
                                       (case audienceGetter a of
                                          None \<Rightarrow> '''' | Some g \<Rightarrow> g ctx req info);
                                     tr_audience =
                                       (case audienceGetter a of
                                          None \<Rightarrow> [] | Some g \<Rightarrow> [AudienceCall ctx req info]);
                                     authInfo =
                                       \<lparr>AuthToken = authHeader,
                                        TLSSubject = tlsSubject,
                                        TLSConnection = tlsConnection,
                                        ExtraData = authExtraHeader,
                                        Audience = audience\<rparr>
                                 in
                                   (case GetClaims cm authInfo of
                                      (mappedClaims, Some err) \<Rightarrow>
                                        (Return errUnauthorized,
                                         tr_audience @ [GetClaimsCall authInfo] @ logAuthError err)
                                    | (mappedClaims, None) \<Rightarrow>
                                        let ctx1 = WithValue ctx MappedClaims
                                                     (ClaimsValue mappedClaims);
                                            ctx2 = (if authHeader \<noteq> ''''
                                                    then WithValue ctx1 AuthHeader
                                                           (StringValue authHeader)
                                                    else ctx1)
                                        in (Continue mappedClaims ctx2,
                                            tr_audience @ [GetClaimsCall authInfo]))))
                     else (Continue None ctx, [])))"

text \<open>
  The second block (\<open>if a.authorizer != nil\<close>): the call target, the scoped metrics
  handler, the authorizer and the enforcement of its decision.
\<close>

definition Interceptor_authorizer ::
  "'c interceptor \<Rightarrow> 'c Context \<Rightarrow> 'c option \<Rightarrow> message \<Rightarrow> UnaryServerInfo
     \<Rightarrow> 'c flow \<times> 'c event list" where
  "Interceptor_authorizer a ctx claims req info =
     (if authorizer a \<noteq> None then
        let namespace = (case req of WithNamespace ns payload \<Rightarrow> ns | _ \<Rightarrow> '''');
            handler = getMetricsHandler a AuthorizationScope namespace
        in
          (case authorize a ctx claims
                  \<lparr>Namespace = namespace, APIName = FullMethod info, Request = req\<rparr> handler of
             (Inl p, tr) \<Rightarrow> (Panicked p, tr)
           | (Inr (result, Some err), tr) \<Rightarrow>
               (Return errUnauthorized,
                tr @ [CounterRecord handler ServiceErrAuthorizeFailedCounter 1] @ logAuthError err)
           | (Inr (result, None), tr) \<Rightarrow>
               if Decision result \<noteq> DecisionAllow then
                 (if Reason result \<noteq> ''''
                  then Return (PermissionDenied RequestUnauthorized (Reason result))
                  else Return errUnauthorized,
                  tr @ [CounterRecord handler ServiceErrUnauthorizedCounter 1])
               else (Continue claims ctx, tr))
      else (Continue claims ctx, []))"

text \<open>
  The whole method: the two blocks, then \<open>return handler(ctx, req)\<close>. The value is what
  the method returns (a response and an error, or a panic) and the effects in order.
\<close>

definition Interceptor ::
  "'c interceptor \<Rightarrow> 'c Context \<Rightarrow> message \<Rightarrow> UnaryServerInfo \<Rightarrow> 'c UnaryHandler
     \<Rightarrow> (panic + message \<times> error option) \<times> 'c event list" where
  "Interceptor a ctx req info handler =
     (case Interceptor_claims a ctx req info of
        (Panicked p, tr1) \<Rightarrow> (Inl p, tr1)
      | (Return e, tr1) \<Rightarrow> (Inr (NilMessage, Some e), tr1)
      | (Continue claims ctx', tr1) \<Rightarrow>
          (case Interceptor_authorizer a ctx' claims req info of
             (Panicked p, tr2) \<Rightarrow> (Inl p, tr1 @ tr2)
           | (Return e, tr2) \<Rightarrow> (Inr (NilMessage, Some e), tr1 @ tr2)
           | (Continue claims' ctx'', tr2) \<Rightarrow>
               (Inr (handler ctx'' req), tr1 @ tr2 @ [HandlerCall ctx'' req])))"

subsection \<open>Auxiliary notions\<close>

text \<open>The first value of a header, or the empty string when there is none.\<close>

definition first_or_empty :: "string list \<Rightarrow> string" where
  "first_or_empty xs = (case xs of [] \<Rightarrow> '''' | x # _ \<Rightarrow> x)"

text \<open>
  The calls of the claim mapper and of the authorizer, the counter increments and the
  timer recordings among the effects of a call, each in order of occurrence.
\<close>

definition GetClaims_calls :: "'c event list \<Rightarrow> AuthInfo list" where
  "GetClaims_calls tr =
     concat (map (\<lambda>e. case e of GetClaimsCall ai \<Rightarrow> [ai] | _ \<Rightarrow> []) tr)"

definition Authorize_calls ::
  "'c event list \<Rightarrow> ('c Context \<times> 'c option \<times> CallTarget) list" where
  "Authorize_calls tr =
     concat (map (\<lambda>e. case e of AuthorizeCall c cl t \<Rightarrow> [(c, cl, t)] | _ \<Rightarrow> []) tr)"

definition counter_records ::
  "'c event list \<Rightarrow> (metrics_Handler \<times> metric_name \<times> int) list" where
  "counter_records tr =
     concat (map (\<lambda>e. case e of CounterRecord h m v \<Rightarrow> [(h, m, v)] | _ \<Rightarrow> []) tr)"

definition timer_records :: "'c event list \<Rightarrow> (metrics_Handler \<times> metric_name) list" where
  "timer_records tr =
     concat (map (\<lambda>e. case e of TimerRecord h m \<Rightarrow> [(h, m)] | _ \<Rightarrow> []) tr)"

subsection \<open>Example calls\<close>

text \<open>Concrete configurations, contexts and collaborators, with claims as strings.\<close>

definition cert_alice :: Certificate where
  "cert_alice = \<lparr>Subject = \<lparr>CommonName = ''alice'', Organization = [''acme'']\<rparr>\<rparr>"

definition tls_alice :: TLSInfo where
  "tls_alice = \<lparr>State = \<lparr>VerifiedChains = [Some cert_alice] # []\<rparr>\<rparr>"

definition ctx_plain :: "string Context" where
  "ctx_plain = \<lparr>incoming_metadata = None, peer = None, ctx_values = []\<rparr>"

definition ctx_mtls :: "string Context" where
  "ctx_mtls = \<lparr>incoming_metadata = None,
               peer = Some \<lparr>peer_AuthInfo = TLSInfoCredentials tls_alice\<rparr>,
               ctx_values = []\<rparr>"

definition info_start :: UnaryServerInfo where
  "info_start = \<lparr>FullMethod = ''/svc/Start''\<rparr>"

definition handler_echo :: "string UnaryHandler" where
  "handler_echo ctx req = (req, None)"

definition open_access :: "string interceptor" where
  "open_access = \<lparr>authorizer = None, claimMapper = None, metricsHandler = [],
                  audienceGetter = None, authHeaderName = ''authorization'',
                  authExtraHeaderName = ''authorization-extras''\<rparr>"

definition ctx_token :: "string Context" where
  "ctx_token = \<lparr>incoming_metadata = Some [''authorization'' \<mapsto> [''tokA'', ''tokB'']],
                peer = None, ctx_values = []\<rparr>"

definition cm_token :: "string ClaimMapper" where
  "cm_token = \<lparr>GetClaims = (\<lambda>ai. (Some (AuthToken ai), None)), AuthInfoRequired = None\<rparr>"

definition cm_required :: "string ClaimMapper" where
  "cm_required = \<lparr>GetClaims = (\<lambda>ai. (Some (AuthToken ai), None)),
                  AuthInfoRequired = Some True\<rparr>"

definition cm_anonymous :: "string ClaimMapper" where
  "cm_anonymous = \<lparr>GetClaims = (\<lambda>ai. (Some ''anonymous'', None)),
                   AuthInfoRequired = Some False\<rparr>"

definition cm_failing :: "string ClaimMapper" where
  "cm_failing = \<lparr>GetClaims = (\<lambda>ai. (None, Some (OtherError ''token expired''))),
                 AuthInfoRequired = None\<rparr>"

definition az_allow :: "string Authorizer" where
  "az_allow c cl t = (\<lparr>Decision = DecisionAllow, Reason = ''''\<rparr>, None)"

definition az_deny :: "string Authorizer" where
  "az_deny c cl t = (\<lparr>Decision = DecisionDeny, Reason = ''missing scope''\<rparr>, None)"

definition az_failing :: "string Authorizer" where
  "az_failing c cl t =
     (\<lparr>Decision = DecisionDeny, Reason = ''''\<rparr>, Some (OtherError ''policy store down''))"

definition configured ::
  "string ClaimMapper option \<Rightarrow> string Authorizer option \<Rightarrow> string interceptor" where
  "configured cm az = \<lparr>authorizer = az, claimMapper = cm, metricsHandler = [],
                        audienceGetter = None, authHeaderName = ''authorization'',
                        authExtraHeaderName = ''authorization-extras''\<rparr>"

definition req_ns1 :: message where
  "req_ns1 = WithNamespace ''ns1'' ''start''"

definition ai_tokA :: AuthInfo where
  "ai_tokA = \<lparr>AuthToken = ''tokA'', TLSSubject = None, TLSConnection = None,
               ExtraData = '''', Audience = ''''\<rparr>"

definition ctx_tokA :: "string Context" where
  "ctx_tokA = WithValue (WithValue ctx_token MappedClaims (ClaimsValue (Some ''tokA'')))
                AuthHeader (StringValue ''tokA'')"

definition ctx_anonymous :: "string Context" where
  "ctx_anonymous = WithValue ctx_plain MappedClaims (ClaimsValue (Some ''anonymous''))"

definition target_ns1 :: CallTarget where
  "target_ns1 = \<lparr>Namespace = ''ns1'', APIName = ''/svc/Start'', Request = req_ns1\<rparr>"

definition tags_ns1 :: metrics_Handler where
  "tags_ns1 = [OperationTag AuthorizationScope, NamespaceTag ''ns1'']"

definition az_deny_ns1 :: "string Authorizer" where
  "az_deny_ns1 c cl t =
     (if Namespace t = ''ns1''
      then (\<lparr>Decision = DecisionDeny, Reason = ''missing scope''\<rparr>, None)
      else (\<lparr>Decision = DecisionAllow, Reason = ''''\<rparr>, None))"

definition ai_alice :: AuthInfo where
  "ai_alice = \<lparr>AuthToken = '''', TLSSubject = Some (Subject cert_alice),
                TLSConnection = Some tls_alice, ExtraData = '''', Audience = ''''\<rparr>"

definition ctx_alice :: "string Context" where
  "ctx_alice = WithValue ctx_mtls MappedClaims (ClaimsValue (Some ''''))"

section \<open>Properties\<close>

subsection \<open>Unfolding the model and the examples\<close>

lemmas example_defs =
  cert_alice_def tls_alice_def ctx_plain_def ctx_mtls_def ctx_token_def info_start_def
  handler_echo_def cm_token_def cm_required_def cm_anonymous_def cm_failing_def
  az_allow_def az_deny_def az_failing_def configured_def req_ns1_def ai_tokA_def
  ctx_tokA_def ctx_anonymous_def target_ns1_def tags_ns1_def az_deny_ns1_def ai_alice_def
  ctx_alice_def

lemmas model_defs =
  Interceptor_def Interceptor_claims_def Interceptor_authorizer_def authorize_def
  logAuthError_def getMetricsHandler_def WithTags_def header_values_def md_get_def
  TLSInfoFormContext_def PeerCert_def go_index_def WithValue_def errUnauthorized_def Let_def

subsection \<open>Peer evidence extraction\<close>

lemma PeerCert_eq:
  "PeerCert tlsInfo =
     Inr (case tlsInfo of
            None \<Rightarrow> None
          | Some t \<Rightarrow>
              (case VerifiedChains (State t) of
                 [] \<Rightarrow> None
               | chain # _ \<Rightarrow> (case chain of [] \<Rightarrow> None | cert # _ \<Rightarrow> cert)))"
  by (simp add: PeerCert_def go_index_def split: option.splits list.splits)

lemma PeerCert_Inr: "\<exists>c. PeerCert t = Inr c"
  using PeerCert_eq [of t] by blast

text \<open>
  C10. \<open>PeerCert\<close> and \<open>TLSInfoFormContext\<close> are total and never index out of bounds.
  \<open>PeerCert\<close> never panics: it returns nil when its argument is nil, when the list of
  verified chains is empty or when the first verified chain is empty, and the first
  certificate of the first verified chain otherwise. Applied to what
  \<open>TLSInfoFormContext\<close> returns for any context, it returns as well.
\<close>

theorem PeerCert_total:
  "PeerCert tlsInfo =
     Inr (case tlsInfo of
            None \<Rightarrow> None
          | Some t \<Rightarrow>
              (case VerifiedChains (State t) of
                 [] \<Rightarrow> None
               | chain # _ \<Rightarrow> (case chain of [] \<Rightarrow> None | cert # _ \<Rightarrow> cert)))
   \<and> (\<exists>cert. PeerCert (TLSInfoFormContext ctx) = Inr cert)"
  using PeerCert_eq [of tlsInfo] PeerCert_Inr [of "TLSInfoFormContext ctx"] by simp

subsection \<open>Open access\<close>

text \<open>
  C7. With neither a claim mapper nor an authorizer configured, the call is forwarded
  to the handler with the incoming context and request unchanged, the handler's result
  and error are returned as they are, and the call of the handler is the only effect:
  nothing is attached to the context and no metric is recorded.
\<close>

theorem Interceptor_open_access:
  assumes "claimMapper a = None" and "authorizer a = None"
  shows "Interceptor a ctx req info handler = (Inr (handler ctx req), [HandlerCall ctx req])"
  using assms by (simp add: Interceptor_def Interceptor_claims_def Interceptor_authorizer_def)

theorem Interceptor_open_access_witness:
  "claimMapper open_access = None \<and> authorizer open_access = None
   \<and> Interceptor open_access ctx_mtls (Opaque ''start'') info_start handler_echo
       = (Inr (Opaque ''start'', None), [HandlerCall ctx_mtls (Opaque ''start'')])"
  using Interceptor_open_access [of open_access ctx_mtls "Opaque ''start''" info_start handler_echo]
  by (simp add: open_access_def handler_echo_def)

subsection \<open>The two blocks of the interceptor\<close>

lemma first_header:
  "(if xs \<noteq> [] then go_index xs 0 else Inr '''') = Inr (first_or_empty xs)"
  by (cases xs) (simp_all add: go_index_def first_or_empty_def)

lemma Interceptor_claims_disabled:
  "claimMapper a = None \<or> authorizer a = None \<Longrightarrow>
   Interceptor_claims a ctx req info = (Continue None ctx, [])"
proof (cases "claimMapper a")
  case None
  then show ?thesis by (simp add: Interceptor_claims_def)
next
  case (Some cm)
  assume "claimMapper a = None \<or> authorizer a = None"
  with Some have "authorizer a = None" by simp
  with Some show ?thesis by (simp add: Interceptor_claims_def)
qed

lemma Interceptor_claims_enabled:
  assumes cm: "claimMapper a = Some cm" and az: "authorizer a = Some az"
    and pc: "PeerCert (TLSInfoFormContext ctx) = Inr clientCert"
  shows "Interceptor_claims a ctx req info =
     (if clientCert \<noteq> None \<or> header_values ctx (authHeaderName a) \<noteq> []
           \<or> AuthInfoRequired cm = Some False
      then
        (let authHeader = first_or_empty (header_values ctx (authHeaderName a));
             authInfo = \<lparr>AuthToken = authHeader,
                         TLSSubject = map_option Subject clientCert,
                         TLSConnection = TLSInfoFormContext ctx,
                         ExtraData = first_or_empty (header_values ctx (authExtraHeaderName a)),
                         Audience = (case audienceGetter a of
                                       None \<Rightarrow> '''' | Some g \<Rightarrow> g ctx req info)\<rparr>;
             tr = (case audienceGetter a of
                     None \<Rightarrow> [] | Some g \<Rightarrow> [AudienceCall ctx req info])
                  @ [GetClaimsCall authInfo]
         in case GetClaims cm authInfo of
              (mappedClaims, Some err) \<Rightarrow>
                (Return errUnauthorized, tr @ [LoggerError ''Authorization error'' err])
            | (mappedClaims, None) \<Rightarrow>
                (Continue mappedClaims
                   (if authHeader \<noteq> ''''
                    then WithValue (WithValue ctx MappedClaims (ClaimsValue mappedClaims))
                           AuthHeader (StringValue authHeader)
                    else WithValue ctx MappedClaims (ClaimsValue mappedClaims)),
                 tr))
      else (Continue None ctx, []))"
proof -
  have req: "(case AuthInfoRequired cm of None \<Rightarrow> True | Some r \<Rightarrow> r)
               = (AuthInfoRequired cm \<noteq> Some False)"
    by (cases "AuthInfoRequired cm") auto
  have sub: "(map_option Subject clientCert \<noteq> None) = (clientCert \<noteq> None)"
    by simp
  have len: "\<And>xs::string list. (0 < length xs) = (xs \<noteq> [])" by simp
  show ?thesis
  proof (cases "clientCert \<noteq> None \<or> header_values ctx (authHeaderName a) \<noteq> []
           \<or> AuthInfoRequired cm = Some False")
    case False
    then show ?thesis
      unfolding Interceptor_claims_def Let_def
      by (simp only: cm az pc req sub len option.case sum.case option.distinct if_False simp_thms)
  next
    case True
    show ?thesis
      unfolding Interceptor_claims_def Let_def
      by (simp only: cm az pc req sub first_header option.case sum.case option.distinct
          if_False if_True simp_thms True len append_assoc logAuthError_def)
  qed
qed

text \<open>What the first block can do, whatever the configuration.\<close>

lemma Interceptor_claims_cases:
  obtains
    (skipped)
      "claimMapper a = None \<or> authorizer a = None
       \<or> (\<exists>cm. claimMapper a = Some cm
              \<and> PeerCert (TLSInfoFormContext ctx) = Inr None
              \<and> header_values ctx (authHeaderName a) = []
              \<and> AuthInfoRequired cm \<noteq> Some False)"
      "Interceptor_claims a ctx req info = (Continue None ctx, [])"
  | (rejected) cm clientCert ai mc err aud where
      "claimMapper a = Some cm" "authorizer a \<noteq> None"
      "PeerCert (TLSInfoFormContext ctx) = Inr clientCert"
      "clientCert \<noteq> None \<or> header_values ctx (authHeaderName a) \<noteq> []
         \<or> AuthInfoRequired cm = Some False"
      "ai = \<lparr>AuthToken = first_or_empty (header_values ctx (authHeaderName a)),
             TLSSubject = map_option Subject clientCert,
             TLSConnection = TLSInfoFormContext ctx,
             ExtraData = first_or_empty (header_values ctx (authExtraHeaderName a)),
             Audience = (case audienceGetter a of
                           None \<Rightarrow> '''' | Some g \<Rightarrow> g ctx req info)\<rparr>"
      "GetClaims cm ai = (mc, Some err)"
      "aud = [] \<or> aud = [AudienceCall ctx req info]"
      "Interceptor_claims a ctx req info =
         (Return errUnauthorized, aud @ [GetClaimsCall ai, LoggerError ''Authorization error'' err])"
  | (mapped) cm clientCert ai mc aud where
      "claimMapper a = Some cm" "authorizer a \<noteq> None"
      "PeerCert (TLSInfoFormContext ctx) = Inr clientCert"
      "clientCert \<noteq> None \<or> header_values ctx (authHeaderName a) \<noteq> []
         \<or> AuthInfoRequired cm = Some False"
      "ai = \<lparr>AuthToken = first_or_empty (header_values ctx (authHeaderName a)),
             TLSSubject = map_option Subject clientCert,
             TLSConnection = TLSInfoFormContext ctx,
             ExtraData = first_or_empty (header_values ctx (authExtraHeaderName a)),
             Audience = (case audienceGetter a of
                           None \<Rightarrow> '''' | Some g \<Rightarrow> g ctx req info)\<rparr>"
      "GetClaims cm ai = (mc, None)"
      "aud = [] \<or> aud = [AudienceCall ctx req info]"
      "Interceptor_claims a ctx req info =
         (Continue mc
            (if AuthToken ai \<noteq> ''''
             then WithValue (WithValue ctx MappedClaims (ClaimsValue mc))
                    AuthHeader (StringValue (AuthToken ai))
             else WithValue ctx MappedClaims (ClaimsValue mc)),
          aud @ [GetClaimsCall ai])"
proof (cases "claimMapper a = None \<or> authorizer a = None")
  case True
  then show ?thesis using Interceptor_claims_disabled skipped by blast
next
  case False
  then obtain cm az where cm: "claimMapper a = Some cm" and az: "authorizer a = Some az"
    by auto
  obtain clientCert where pc: "PeerCert (TLSInfoFormContext ctx) = Inr clientCert"
    using PeerCert_Inr by blast
  note blk = Interceptor_claims_enabled [OF cm az pc, of req info]
  show ?thesis
  proof (cases "clientCert \<noteq> None \<or> header_values ctx (authHeaderName a) \<noteq> []
           \<or> AuthInfoRequired cm = Some False")
    case False
    with blk have "Interceptor_claims a ctx req info = (Continue None ctx, [])"
      by (simp only: if_False)
    moreover from False cm pc have "\<exists>cm. claimMapper a = Some cm
              \<and> PeerCert (TLSInfoFormContext ctx) = Inr None
              \<and> header_values ctx (authHeaderName a) = []
              \<and> AuthInfoRequired cm \<noteq> Some False" by simp
    ultimately show ?thesis using skipped by blast
  next
    case True
    define ai where "ai = \<lparr>AuthToken = first_or_empty (header_values ctx (authHeaderName a)),
                         TLSSubject = map_option Subject clientCert,
                         TLSConnection = TLSInfoFormContext ctx,
                         ExtraData = first_or_empty (header_values ctx (authExtraHeaderName a)),
                         Audience = (case audienceGetter a of
                                       None \<Rightarrow> '''' | Some g \<Rightarrow> g ctx req info)\<rparr>"
    define aud where "aud = (case audienceGetter a of
                     None \<Rightarrow> [] | Some g \<Rightarrow> [AudienceCall ctx req info])"
    have aud: "aud = [] \<or> aud = [AudienceCall ctx req info]"
      by (cases "audienceGetter a") (simp_all add: aud_def)
    have azn: "authorizer a \<noteq> None" using az by simp
    have blk': "Interceptor_claims a ctx req info =
        (case GetClaims cm ai of
              (mappedClaims, Some err) \<Rightarrow>
                (Return errUnauthorized, (aud @ [GetClaimsCall ai]) @ [LoggerError ''Authorization error'' err])
            | (mappedClaims, None) \<Rightarrow>
                (Continue mappedClaims
                   (if AuthToken ai \<noteq> ''''
                    then WithValue (WithValue ctx MappedClaims (ClaimsValue mappedClaims))
                           AuthHeader (StringValue (AuthToken ai))
                    else WithValue ctx MappedClaims (ClaimsValue mappedClaims)),
                 aud @ [GetClaimsCall ai]))"
      by (subst blk) (simp only: True if_True Let_def ai_def aud_def AuthInfo.select_convs)
    obtain mc e where gc: "GetClaims cm ai = (mc, e)" by (cases "GetClaims cm ai")
    show ?thesis
    proof (cases e)
      case None
      with blk' gc have "Interceptor_claims a ctx req info =
         (Continue mc
            (if AuthToken ai \<noteq> ''''
             then WithValue (WithValue ctx MappedClaims (ClaimsValue mc))
                    AuthHeader (StringValue (AuthToken ai))
             else WithValue ctx MappedClaims (ClaimsValue mc)),
          aud @ [GetClaimsCall ai])" by simp
      with gc None show ?thesis
        using mapped [OF cm azn pc True ai_def _ aud] by simp
    next
      case (Some err)
      with blk' gc have "Interceptor_claims a ctx req info =
         (Return errUnauthorized, aud @ [GetClaimsCall ai, LoggerError ''Authorization error'' err])"
        by simp
      with gc Some show ?thesis
        using rejected [OF cm azn pc True ai_def _ aud] by simp
    qed
  qed
qed

lemma Interceptor_authorizer_disabled:
  "authorizer a = None \<Longrightarrow>
   Interceptor_authorizer a ctx claims req info = (Continue claims ctx, [])"
  by (simp add: Interceptor_authorizer_def)

lemma Interceptor_authorizer_enabled:
  assumes az: "authorizer a = Some az"
    and res: "az ctx claims
                \<lparr>Namespace = (case req of WithNamespace ns payload \<Rightarrow> ns | _ \<Rightarrow> ''''),
                 APIName = FullMethod info, Request = req\<rparr> = (result, err)"
  shows "Interceptor_authorizer a ctx claims req info =
     (let namespace = (case req of WithNamespace ns payload \<Rightarrow> ns | _ \<Rightarrow> '''');
          h = getMetricsHandler a AuthorizationScope namespace;
          tr = [AuthorizeCall ctx claims
                  \<lparr>Namespace = namespace, APIName = FullMethod info, Request = req\<rparr>,
                TimerRecord h ServiceAuthorizationLatency]
      in case err of
           Some e \<Rightarrow>
             (Return errUnauthorized,
              tr @ [CounterRecord h ServiceErrAuthorizeFailedCounter 1,
                    LoggerError ''Authorization error'' e])
         | None \<Rightarrow>
             if Decision result \<noteq> DecisionAllow
             then (if Reason result \<noteq> ''''
                   then Return (PermissionDenied RequestUnauthorized (Reason result))
                   else Return errUnauthorized,
                   tr @ [CounterRecord h ServiceErrUnauthorizedCounter 1])
             else (Continue claims ctx, tr))"
  unfolding Interceptor_authorizer_def authorize_def Let_def
  by (cases err) (simp_all only: az res option.case prod.case sum.case option.distinct
      simp_thms if_True if_False logAuthError_def append.simps)

text \<open>What the second block can do.\<close>

lemma Interceptor_authorizer_cases:
  fixes a :: "'c interceptor" and c :: "'c Context" and req :: message and info :: UnaryServerInfo
  defines "ns \<equiv> (case req of WithNamespace n payload \<Rightarrow> n | _ \<Rightarrow> '''')"
  defines "h \<equiv> getMetricsHandler a AuthorizationScope ns"
  defines "target \<equiv> \<lparr>Namespace = ns, APIName = FullMethod info, Request = req\<rparr>"
  obtains
    (disabled)
      "authorizer a = None"
      "Interceptor_authorizer a c cl req info = (Continue cl c, [])"
  | (failed) az result e where
      "authorizer a = Some az" "az c cl target = (result, Some e)"
      "Interceptor_authorizer a c cl req info =
         (Return errUnauthorized,
          [AuthorizeCall c cl target, TimerRecord h ServiceAuthorizationLatency,
           CounterRecord h ServiceErrAuthorizeFailedCounter 1,
           LoggerError ''Authorization error'' e])"
  | (denied) az result where
      "authorizer a = Some az" "az c cl target = (result, None)"
      "Decision result \<noteq> DecisionAllow"
      "Interceptor_authorizer a c cl req info =
         (if Reason result \<noteq> ''''
          then Return (PermissionDenied RequestUnauthorized (Reason result))
          else Return errUnauthorized,
          [AuthorizeCall c cl target, TimerRecord h ServiceAuthorizationLatency,
           CounterRecord h ServiceErrUnauthorizedCounter 1])"
  | (allowed) az result where
      "authorizer a = Some az" "az c cl target = (result, None)"
      "Decision result = DecisionAllow"
      "Interceptor_authorizer a c cl req info =
         (Continue cl c,
          [AuthorizeCall c cl target, TimerRecord h ServiceAuthorizationLatency])"
proof (cases "authorizer a")
  case None
  then show ?thesis using disabled Interceptor_authorizer_disabled by blast
next
  case (Some az)
  obtain result err where res: "az c cl target = (result, err)" by (cases "az c cl target")
  note blk = Interceptor_authorizer_enabled [OF Some res [unfolded target_def ns_def]]
  show ?thesis
  proof (cases err)
    case e: (Some e)
    have "Interceptor_authorizer a c cl req info =
         (Return errUnauthorized,
          [AuthorizeCall c cl target, TimerRecord h ServiceAuthorizationLatency,
           CounterRecord h ServiceErrAuthorizeFailedCounter 1,
           LoggerError ''Authorization error'' e])"
      by (subst blk) (simp add: e Let_def target_def h_def ns_def)
    with Some res e show ?thesis using failed by blast
  next
    case None
    show ?thesis
    proof (cases "Decision result = DecisionAllow")
      case True
      have "Interceptor_authorizer a c cl req info =
         (Continue cl c,
          [AuthorizeCall c cl target, TimerRecord h ServiceAuthorizationLatency])"
        by (subst blk) (simp add: None True Let_def target_def h_def ns_def)
      with Some res None True show ?thesis using allowed by blast
    next
      case False
      have "Interceptor_authorizer a c cl req info =
         (if Reason result \<noteq> ''''
          then Return (PermissionDenied RequestUnauthorized (Reason result))
          else Return errUnauthorized,
          [AuthorizeCall c cl target, TimerRecord h ServiceAuthorizationLatency,
           CounterRecord h ServiceErrUnauthorizedCounter 1])"
        by (subst blk) (simp add: None False Let_def target_def h_def ns_def)
      with Some res None False show ?thesis using denied by blast
    qed
  qed
qed

text \<open>The whole method, once the first block has returned or fallen through.\<close>

lemma Interceptor_rejected:
  "Interceptor_claims a ctx req info = (Return e, tr1) \<Longrightarrow>
   Interceptor a ctx req info handler = (Inr (NilMessage, Some e), tr1)"
  by (simp add: Interceptor_def)

lemma Interceptor_proceed:
  fixes a :: "'c interceptor" and c :: "'c Context" and req :: message and info :: UnaryServerInfo
  defines "ns \<equiv> (case req of WithNamespace n payload \<Rightarrow> n | _ \<Rightarrow> '''')"
  defines "h \<equiv> getMetricsHandler a AuthorizationScope ns"
  defines "target \<equiv> \<lparr>Namespace = ns, APIName = FullMethod info, Request = req\<rparr>"
  assumes blk1: "Interceptor_claims a ctx req info = (Continue cl c, tr1)"
  obtains
    (disabled)
      "authorizer a = None"
      "Interceptor a ctx req info handler = (Inr (handler c req), tr1 @ [HandlerCall c req])"
  | (failed) az result e where
      "authorizer a = Some az" "az c cl target = (result, Some e)"
      "Interceptor a ctx req info handler =
         (Inr (NilMessage, Some errUnauthorized),
          tr1 @ [AuthorizeCall c cl target, TimerRecord h ServiceAuthorizationLatency,
                 CounterRecord h ServiceErrAuthorizeFailedCounter 1,
                 LoggerError ''Authorization error'' e])"
  | (denied) az result where
      "authorizer a = Some az" "az c cl target = (result, None)"
      "Decision result \<noteq> DecisionAllow"
      "Interceptor a ctx req info handler =
         (Inr (NilMessage,
               Some (if Reason result \<noteq> ''''
                     then PermissionDenied RequestUnauthorized (Reason result)
                     else errUnauthorized)),
          tr1 @ [AuthorizeCall c cl target, TimerRecord h ServiceAuthorizationLatency,
                 CounterRecord h ServiceErrUnauthorizedCounter 1])"
  | (allowed) az result where
      "authorizer a = Some az" "az c cl target = (result, None)"
      "Decision result = DecisionAllow"
      "Interceptor a ctx req info handler =
         (Inr (handler c req),
          tr1 @ [AuthorizeCall c cl target, TimerRecord h ServiceAuthorizationLatency,
                 HandlerCall c req])"
proof (cases rule: Interceptor_authorizer_cases [of a c cl req info])
  case disabled
  from disabled(2) blk1
  have "Interceptor a ctx req info handler = (Inr (handler c req), tr1 @ [HandlerCall c req])"
    by (simp add: Interceptor_def)
  with disabled(1) show ?thesis by (rule that(1))
next
  case (failed az result e)
  from failed(3) blk1
  have "Interceptor a ctx req info handler =
         (Inr (NilMessage, Some errUnauthorized),
          tr1 @ [AuthorizeCall c cl target, TimerRecord h ServiceAuthorizationLatency,
                 CounterRecord h ServiceErrAuthorizeFailedCounter 1,
                 LoggerError ''Authorization error'' e])"
    by (simp add: Interceptor_def target_def h_def ns_def)
  with failed(1) failed(2) [folded ns_def, folded target_def] show ?thesis by (rule that(2))
next
  case (denied az result)
  from denied(4) blk1
  have "Interceptor a ctx req info handler =
         (Inr (NilMessage,
               Some (if Reason result \<noteq> ''''
                     then PermissionDenied RequestUnauthorized (Reason result)
                     else errUnauthorized)),
          tr1 @ [AuthorizeCall c cl target, TimerRecord h ServiceAuthorizationLatency,
                 CounterRecord h ServiceErrUnauthorizedCounter 1])"
    by (simp add: Interceptor_def target_def h_def ns_def)
  with denied(1) denied(2) [folded ns_def, folded target_def] denied(3) show ?thesis
    by (rule that(3))
next
  case (allowed az result)
  from allowed(4) blk1
  have "Interceptor a ctx req info handler =
         (Inr (handler c req),
          tr1 @ [AuthorizeCall c cl target, TimerRecord h ServiceAuthorizationLatency,
                 HandlerCall c req])"
    by (simp add: Interceptor_def target_def h_def ns_def)
  with allowed(1) allowed(2) [folded ns_def, folded target_def] allowed(3) show ?thesis
    by (rule that(4))
qed

subsection \<open>Events of a call\<close>

lemma aud_events:
  assumes "aud = [] \<or> aud = [AudienceCall ctx req info]"
  shows "HandlerCall c r \<notin> set aud" "AuthorizeCall c cl t \<notin> set aud"
    "GetClaimsCall ai \<notin> set aud" "CounterRecord h m v \<notin> set aud"
    "TimerRecord h m \<notin> set aud" "LoggerError s e \<notin> set aud"
  using assms by auto

text \<open>The call target and the metrics handler of every authorizer call and metric.\<close>

lemma authorizer_events:
  fixes a :: "'c interceptor" and req :: message and info :: UnaryServerInfo
  defines "ns \<equiv> (case req of WithNamespace n payload \<Rightarrow> n | _ \<Rightarrow> '''')"
  shows "AuthorizeCall c cl t \<in> set (snd (Interceptor a ctx req info handler)) \<Longrightarrow>
           t = \<lparr>Namespace = ns, APIName = FullMethod info, Request = req\<rparr>"
    and "CounterRecord h m v \<in> set (snd (Interceptor a ctx req info handler)) \<Longrightarrow>
           h = getMetricsHandler a AuthorizationScope ns"
    and "TimerRecord h m \<in> set (snd (Interceptor a ctx req info handler)) \<Longrightarrow>
           h = getMetricsHandler a AuthorizationScope ns"
proof -
  have all: "(AuthorizeCall c cl t \<in> set (snd (Interceptor a ctx req info handler)) \<longrightarrow>
           t = \<lparr>Namespace = ns, APIName = FullMethod info, Request = req\<rparr>)
     \<and> (CounterRecord h m v \<in> set (snd (Interceptor a ctx req info handler)) \<longrightarrow>
           h = getMetricsHandler a AuthorizationScope ns)
     \<and> (TimerRecord h m \<in> set (snd (Interceptor a ctx req info handler)) \<longrightarrow>
           h = getMetricsHandler a AuthorizationScope ns)"
  proof (cases rule: Interceptor_claims_cases [of a ctx req info])
    case skipped
    from skipped(2) show ?thesis
      by (cases rule: Interceptor_proceed [where handler = handler]) (simp_all add: ns_def)
  next
    case (rejected cm clientCert ai mc err aud)
    from Interceptor_rejected [OF rejected(8), of handler] aud_events [OF rejected(7)]
    show ?thesis by simp
  next
    case (mapped cm clientCert ai mc aud)
    note ae = aud_events [OF mapped(7)]
    from mapped(8) show ?thesis
      by (cases rule: Interceptor_proceed [where handler = handler]) (simp_all add: ns_def ae)
  qed
  from all show "AuthorizeCall c cl t \<in> set (snd (Interceptor a ctx req info handler)) \<Longrightarrow>
           t = \<lparr>Namespace = ns, APIName = FullMethod info, Request = req\<rparr>" by blast
  from all show "CounterRecord h m v \<in> set (snd (Interceptor a ctx req info handler)) \<Longrightarrow>
           h = getMetricsHandler a AuthorizationScope ns" by blast
  from all show "TimerRecord h m \<in> set (snd (Interceptor a ctx req info handler)) \<Longrightarrow>
           h = getMetricsHandler a AuthorizationScope ns" by blast
qed

text \<open>When the first block does not reject, a configured authorizer is called.\<close>

lemma authorizer_invoked:
  assumes az: "authorizer a \<noteq> None"
    and ok: "\<forall>cm ai. claimMapper a = Some cm
                \<and> GetClaimsCall ai \<in> set (snd (Interceptor a ctx req info handler))
              \<longrightarrow> snd (GetClaims cm ai) = None"
  shows "\<exists>c cl t h. AuthorizeCall c cl t \<in> set (snd (Interceptor a ctx req info handler))
           \<and> TimerRecord h ServiceAuthorizationLatency
                \<in> set (snd (Interceptor a ctx req info handler))"
proof (cases rule: Interceptor_claims_cases [of a ctx req info])
  case skipped
  from skipped(2) show ?thesis
  proof (cases rule: Interceptor_proceed [where handler = handler])
    case disabled
    with az show ?thesis by simp
  next
    case (failed az result e)
    from failed(3) show ?thesis by (simp only: snd_conv) auto
  next
    case (denied az result)
    from denied(4) show ?thesis by (simp only: snd_conv) auto
  next
    case (allowed az result)
    from allowed(4) show ?thesis by (simp only: snd_conv) auto
  qed
next
  case (rejected cm clientCert ai mc err aud)
  from Interceptor_rejected [OF rejected(8), of handler]
  have "GetClaimsCall ai \<in> set (snd (Interceptor a ctx req info handler))" by simp
  with ok rejected(1) have "snd (GetClaims cm ai) = None" by blast
  with rejected(6) show ?thesis by simp
next
  case (mapped cm clientCert ai mc aud)
  from mapped(8) show ?thesis
  proof (cases rule: Interceptor_proceed [where handler = handler])
    case disabled
    with az show ?thesis by simp
  next
    case (failed az result e)
    from failed(3) show ?thesis by (simp only: snd_conv) auto
  next
    case (denied az result)
    from denied(4) show ?thesis by (simp only: snd_conv) auto
  next
    case (allowed az result)
    from allowed(4) show ?thesis by (simp only: snd_conv) auto
  qed
qed


text \<open>The context that reaches the authorizer and the handler.\<close>

lemma passed_context_cases:
  assumes passed: "HandlerCall ctx' r \<in> set (snd (Interceptor a ctx req info handler))
                   \<or> AuthorizeCall ctx' cl t \<in> set (snd (Interceptor a ctx req info handler))"
  obtains
    (unchanged)
      "ctx' = ctx"
      "\<forall>ai. GetClaimsCall ai \<notin> set (snd (Interceptor a ctx req info handler))"
  | (enriched) cm clientCert ai mc where
      "claimMapper a = Some cm" "authorizer a \<noteq> None"
      "PeerCert (TLSInfoFormContext ctx) = Inr clientCert"
      "clientCert \<noteq> None \<or> header_values ctx (authHeaderName a) \<noteq> []
         \<or> AuthInfoRequired cm = Some False"
      "AuthToken ai = first_or_empty (header_values ctx (authHeaderName a))"
      "GetClaims cm ai = (mc, None)"
      "\<forall>ai'. GetClaimsCall ai' \<in> set (snd (Interceptor a ctx req info handler))
               \<longleftrightarrow> ai' = ai"
      "ctx' = (if AuthToken ai \<noteq> ''''
               then WithValue (WithValue ctx MappedClaims (ClaimsValue mc))
                      AuthHeader (StringValue (AuthToken ai))
               else WithValue ctx MappedClaims (ClaimsValue mc))"
proof (cases rule: Interceptor_claims_cases [of a ctx req info])
  case skipped
  from skipped(2) have "ctx' = ctx
      \<and> (\<forall>ai. GetClaimsCall ai \<notin> set (snd (Interceptor a ctx req info handler)))"
    using passed
    by (cases rule: Interceptor_proceed [where handler = handler]) auto
  then show ?thesis using unchanged by blast
next
  case (rejected cm clientCert ai mc err aud)
  from Interceptor_rejected [OF rejected(8), of handler] aud_events [OF rejected(7)] passed
  show ?thesis by simp
next
  case (mapped cm clientCert ai mc aud)
  note ae = aud_events [OF mapped(7)]
  have tok: "AuthToken ai = first_or_empty (header_values ctx (authHeaderName a))"
    by (simp add: mapped(5))
  from mapped(8) have "(\<forall>ai'. GetClaimsCall ai' \<in> set (snd (Interceptor a ctx req info handler))
               \<longleftrightarrow> ai' = ai)
      \<and> ctx' = (if AuthToken ai \<noteq> ''''
               then WithValue (WithValue ctx MappedClaims (ClaimsValue mc))
                      AuthHeader (StringValue (AuthToken ai))
               else WithValue ctx MappedClaims (ClaimsValue mc))"
    using passed
    by (cases rule: Interceptor_proceed [where handler = handler]) (auto simp: ae)
  then show ?thesis
    using enriched [OF mapped(1,2,3,4) tok mapped(6)] by blast
qed

lemma Value_WithValue:
  "Value (WithValue c k v) k' = (if k' = k then Some v else Value c k')"
  by (simp add: Value_def WithValue_def)

lemma first_or_empty_nonempty: "first_or_empty xs \<noteq> '''' \<Longrightarrow> xs \<noteq> []"
  by (cases xs) (simp_all add: first_or_empty_def)

subsection \<open>Concrete calls, evaluated\<close>

lemma run_mapper_fails:
  "Interceptor (configured (Some cm_failing) (Some az_allow)) ctx_token req_ns1 info_start
     handler_echo
   = (Inr (NilMessage, Some (PermissionDenied RequestUnauthorized '''')),
      [GetClaimsCall ai_tokA,
       LoggerError ''Authorization error'' (OtherError ''token expired'')])"
  by (simp add: model_defs example_defs)

lemma run_anonymous:
  "Interceptor (configured (Some cm_anonymous) (Some az_allow)) ctx_plain req_ns1 info_start
     handler_echo
   = (Inr (req_ns1, None),
      [GetClaimsCall \<lparr>AuthToken = '''', TLSSubject = None, TLSConnection = None,
                      ExtraData = '''', Audience = ''''\<rparr>,
       AuthorizeCall ctx_anonymous (Some ''anonymous'') target_ns1,
       TimerRecord tags_ns1 ServiceAuthorizationLatency,
       HandlerCall ctx_anonymous req_ns1])"
  by (simp add: model_defs example_defs)

lemma run_no_evidence:
  "Interceptor (configured (Some cm_required) (Some az_allow)) ctx_plain req_ns1 info_start
     handler_echo
   = (Inr (req_ns1, None),
      [AuthorizeCall ctx_plain None target_ns1,
       TimerRecord tags_ns1 ServiceAuthorizationLatency,
       HandlerCall ctx_plain req_ns1])"
  by (simp add: model_defs example_defs)

lemma run_mapper_only:
  "Interceptor (configured (Some cm_required) None) ctx_mtls req_ns1 info_start handler_echo
   = (Inr (req_ns1, None), [HandlerCall ctx_mtls req_ns1])"
  by (simp add: model_defs example_defs)

lemma run_mtls_deny:
  "Interceptor (configured (Some cm_required) (Some az_deny)) ctx_mtls req_ns1 info_start
     handler_echo
   = (Inr (NilMessage, Some (PermissionDenied RequestUnauthorized ''missing scope'')),
      [GetClaimsCall \<lparr>AuthToken = '''', TLSSubject = Some (Subject cert_alice),
                      TLSConnection = Some tls_alice, ExtraData = '''', Audience = ''''\<rparr>,
       AuthorizeCall (WithValue ctx_mtls MappedClaims (ClaimsValue (Some '''')))
         (Some '''') target_ns1,
       TimerRecord tags_ns1 ServiceAuthorizationLatency,
       CounterRecord tags_ns1 ServiceErrUnauthorizedCounter 1])"
  by (simp add: model_defs example_defs)

lemma run_authorizer_fails:
  "Interceptor (configured (Some cm_token) (Some az_failing)) ctx_token (Opaque ''list'')
     info_start handler_echo
   = (Inr (NilMessage, Some (PermissionDenied RequestUnauthorized '''')),
      [GetClaimsCall ai_tokA,
       AuthorizeCall ctx_tokA (Some ''tokA'')
         \<lparr>Namespace = '''', APIName = ''/svc/Start'', Request = Opaque ''list''\<rparr>,
       TimerRecord [OperationTag AuthorizationScope, NamespaceUnknownTag]
         ServiceAuthorizationLatency,
       CounterRecord [OperationTag AuthorizationScope, NamespaceUnknownTag]
         ServiceErrAuthorizeFailedCounter 1,
       LoggerError ''Authorization error'' (OtherError ''policy store down'')])"
  by (simp add: model_defs example_defs)

lemma run_token_allow:
  "Interceptor (configured (Some cm_token) (Some az_allow)) ctx_token req_ns1 info_start
     handler_echo
   = (Inr (req_ns1, None),
      [GetClaimsCall ai_tokA,
       AuthorizeCall ctx_tokA (Some ''tokA'') target_ns1,
       TimerRecord tags_ns1 ServiceAuthorizationLatency,
       HandlerCall ctx_tokA req_ns1])"
  by (simp add: model_defs example_defs)

subsection \<open>Errors of the interceptor\<close>

text \<open>
  C1. Every error the interceptor returns itself (the handler was not called) comes with
  a nil response and has exactly one of two shapes: the fixed \<open>errUnauthorized\<close>
  (permission denied, message "Request unauthorized.", empty reason), or a permission
  denied error with the same message whose reason is the non-empty reason of the
  authorizer's negative decision. In particular, when the claim mapper or the authorizer
  returns an error, the interceptor returns \<open>errUnauthorized\<close>, a constant in which the
  collaborator's error does not occur.
\<close>

theorem Interceptor_errors_generic:
  "(\<forall>resp e.
      fst (Interceptor a ctx req info handler) = Inr (resp, Some e)
      \<and> (\<forall>c r. HandlerCall c r \<notin> set (snd (Interceptor a ctx req info handler)))
      \<longrightarrow> resp = NilMessage
          \<and> (e = errUnauthorized)
              \<noteq> (\<exists>az c cl t result.
                     authorizer a = Some az
                   \<and> AuthorizeCall c cl t \<in> set (snd (Interceptor a ctx req info handler))
                   \<and> az c cl t = (result, None) \<and> Decision result \<noteq> DecisionAllow
                   \<and> Reason result \<noteq> ''''
                   \<and> e = PermissionDenied RequestUnauthorized (Reason result)))
   \<and> (\<forall>cm ai mc err.
        claimMapper a = Some cm
        \<and> GetClaimsCall ai \<in> set (snd (Interceptor a ctx req info handler))
        \<and> GetClaims cm ai = (mc, Some err)
        \<longrightarrow> fst (Interceptor a ctx req info handler) = Inr (NilMessage, Some errUnauthorized))
   \<and> (\<forall>az c cl t result err.
        authorizer a = Some az
        \<and> AuthorizeCall c cl t \<in> set (snd (Interceptor a ctx req info handler))
        \<and> az c cl t = (result, Some err)
        \<longrightarrow> fst (Interceptor a ctx req info handler) = Inr (NilMessage, Some errUnauthorized))"
proof -
  have neq: "\<And>r. r \<noteq> '''' \<Longrightarrow> PermissionDenied RequestUnauthorized r \<noteq> errUnauthorized"
    by (simp add: errUnauthorized_def)
  show ?thesis
  proof (cases rule: Interceptor_claims_cases [of a ctx req info])
    case skipped
    from skipped(2) show ?thesis
    proof (cases rule: Interceptor_proceed [where handler = handler])
      case disabled
      from disabled show ?thesis by auto
    next
      case (failed az result e)
      from failed show ?thesis by auto
    next
      case (denied az result)
      from denied neq show ?thesis by auto
    next
      case (allowed az result)
      from allowed show ?thesis by auto
    qed
  next
    case (rejected cm clientCert ai mc err aud)
    from Interceptor_rejected [OF rejected(8), of handler] rejected(1,2,6,7)
    show ?thesis by auto
  next
    case (mapped cm clientCert ai mc aud)
    from mapped(8) show ?thesis
    proof (cases rule: Interceptor_proceed [where handler = handler])
      case disabled
      from disabled mapped(1,2,6,7) show ?thesis by auto
    next
      case (failed az result e)
      from failed mapped(1,2,6,7) show ?thesis by auto
    next
      case (denied az result)
      from denied mapped(1,2,6,7) neq show ?thesis by auto
    next
      case (allowed az result)
      from allowed mapped(1,2,6,7) show ?thesis by auto
    qed
  qed
qed

theorem Interceptor_errors_generic_witness:
  "claimMapper (configured (Some cm_failing) (Some az_allow)) = Some cm_failing
   \<and> GetClaimsCall ai_tokA
        \<in> set (snd (Interceptor (configured (Some cm_failing) (Some az_allow)) ctx_token
                      req_ns1 info_start handler_echo))
   \<and> GetClaims cm_failing ai_tokA = (None, Some (OtherError ''token expired''))
   \<and> fst (Interceptor (configured (Some cm_failing) (Some az_allow)) ctx_token req_ns1
             info_start handler_echo)
       = Inr (NilMessage, Some errUnauthorized)
   \<and> fst (Interceptor (configured (Some cm_required) (Some az_deny)) ctx_mtls req_ns1
             info_start handler_echo)
       = Inr (NilMessage, Some (PermissionDenied RequestUnauthorized ''missing scope''))
   \<and> (\<forall>c r. HandlerCall c r
          \<notin> set (snd (Interceptor (configured (Some cm_required) (Some az_deny)) ctx_mtls
                        req_ns1 info_start handler_echo)))
   \<and> (\<exists>az c cl t result.
         authorizer (configured (Some cm_required) (Some az_deny)) = Some az
       \<and> AuthorizeCall c cl t
            \<in> set (snd (Interceptor (configured (Some cm_required) (Some az_deny)) ctx_mtls
                          req_ns1 info_start handler_echo))
       \<and> az c cl t = (result, None) \<and> Decision result \<noteq> DecisionAllow
       \<and> Reason result \<noteq> ''''
       \<and> PermissionDenied RequestUnauthorized ''missing scope''
           = PermissionDenied RequestUnauthorized (Reason result))"
proof -
  have h1: "claimMapper (configured (Some cm_failing) (Some az_allow)) = Some cm_failing"
    by (simp add: configured_def)
  have h2: "GetClaimsCall ai_tokA
        \<in> set (snd (Interceptor (configured (Some cm_failing) (Some az_allow)) ctx_token
                      req_ns1 info_start handler_echo))"
    by (simp add: run_mapper_fails)
  have h3: "GetClaims cm_failing ai_tokA = (None, Some (OtherError ''token expired''))"
    by (simp add: cm_failing_def)
  from Interceptor_errors_generic
         [of "configured (Some cm_failing) (Some az_allow)" ctx_token req_ns1 info_start
             handler_echo] h1 h2 h3
  have r1: "fst (Interceptor (configured (Some cm_failing) (Some az_allow)) ctx_token req_ns1
             info_start handler_echo)
       = Inr (NilMessage, Some errUnauthorized)"
    by blast
  have g1: "fst (Interceptor (configured (Some cm_required) (Some az_deny)) ctx_mtls req_ns1
             info_start handler_echo)
       = Inr (NilMessage, Some (PermissionDenied RequestUnauthorized ''missing scope''))"
    by (simp add: run_mtls_deny)
  have g2: "\<forall>c r. HandlerCall c r
          \<notin> set (snd (Interceptor (configured (Some cm_required) (Some az_deny)) ctx_mtls
                        req_ns1 info_start handler_echo))"
    by (simp add: run_mtls_deny)
  have ne: "PermissionDenied RequestUnauthorized ''missing scope'' \<noteq> errUnauthorized"
    by (simp add: errUnauthorized_def)
  note shapes =
    Interceptor_errors_generic
      [of "configured (Some cm_required) (Some az_deny)" ctx_mtls req_ns1 info_start
          handler_echo,
       THEN conjunct1, rule_format, OF conjI [OF g1 g2], THEN conjunct2]
  from shapes ne
  have r2: "\<exists>az c cl t result.
         authorizer (configured (Some cm_required) (Some az_deny)) = Some az
       \<and> AuthorizeCall c cl t
            \<in> set (snd (Interceptor (configured (Some cm_required) (Some az_deny)) ctx_mtls
                          req_ns1 info_start handler_echo))
       \<and> az c cl t = (result, None) \<and> Decision result \<noteq> DecisionAllow
       \<and> Reason result \<noteq> ''''
       \<and> PermissionDenied RequestUnauthorized ''missing scope''
           = PermissionDenied RequestUnauthorized (Reason result)"
    by simp
  from h1 h2 h3 r1 g1 g2 r2 show ?thesis by (intro conjI)
qed

subsection \<open>When the claim mapper is called\<close>

text \<open>
  C2. With both a claim mapper and an authorizer configured, \<open>GetClaims\<close> is called if
  and only if a certificate subject was found, or the primary auth header has a value,
  or the mapper declares auth info not required. When none of these holds, mapping is
  skipped and the authorizer is called with nil claims (and the unchanged context).
\<close>

theorem GetClaims_invoked_iff:
  assumes cm: "claimMapper a = Some cm" and az: "authorizer a = Some az"
  shows "((\<exists>ai. GetClaimsCall ai \<in> set (snd (Interceptor a ctx req info handler)))
          \<longleftrightarrow> ((\<exists>cert. PeerCert (TLSInfoFormContext ctx) = Inr (Some cert))
               \<or> header_values ctx (authHeaderName a) \<noteq> []
               \<or> AuthInfoRequired cm = Some False))
       \<and> (\<not> ((\<exists>cert. PeerCert (TLSInfoFormContext ctx) = Inr (Some cert))
               \<or> header_values ctx (authHeaderName a) \<noteq> []
               \<or> AuthInfoRequired cm = Some False)
            \<longrightarrow> (\<exists>t. AuthorizeCall ctx None t \<in> set (snd (Interceptor a ctx req info handler)))
              \<and> (\<forall>c cl t. AuthorizeCall c cl t \<in> set (snd (Interceptor a ctx req info handler))
                     \<longrightarrow> cl = None))"
proof (cases rule: Interceptor_claims_cases [of a ctx req info])
  case skipped
  from skipped(1) cm az
  have no: "\<not> ((\<exists>cert. PeerCert (TLSInfoFormContext ctx) = Inr (Some cert))
               \<or> header_values ctx (authHeaderName a) \<noteq> []
               \<or> AuthInfoRequired cm = Some False)"
    by auto
  from skipped(2) show ?thesis
  proof (cases rule: Interceptor_proceed [where handler = handler])
    case disabled
    with az show ?thesis by auto
  next
    case (failed az result e)
    from failed(3) no show ?thesis by auto
  next
    case (denied az result)
    from denied(4) no show ?thesis by auto
  next
    case (allowed az result)
    from allowed(4) no show ?thesis by auto
  qed
next
  case (rejected cm' clientCert ai mc err aud)
  from rejected(1,3,4) cm
  have yes: "(\<exists>cert. PeerCert (TLSInfoFormContext ctx) = Inr (Some cert))
               \<or> header_values ctx (authHeaderName a) \<noteq> []
               \<or> AuthInfoRequired cm = Some False"
    by auto
  from Interceptor_rejected [OF rejected(8), of handler] yes show ?thesis by auto
next
  case (mapped cm' clientCert ai mc aud)
  from mapped(1,3,4) cm
  have yes: "(\<exists>cert. PeerCert (TLSInfoFormContext ctx) = Inr (Some cert))
               \<or> header_values ctx (authHeaderName a) \<noteq> []
               \<or> AuthInfoRequired cm = Some False"
    by auto
  from mapped(8) show ?thesis
  proof (cases rule: Interceptor_proceed [where handler = handler])
    case disabled
    with az show ?thesis by auto
  next
    case (failed az result e)
    from failed(3) yes show ?thesis by auto
  next
    case (denied az result)
    from denied(4) yes show ?thesis by auto
  next
    case (allowed az result)
    from allowed(4) yes show ?thesis by auto
  qed
qed

theorem GetClaims_invoked_iff_witness:
  "claimMapper (configured (Some cm_required) (Some az_allow)) = Some cm_required
   \<and> authorizer (configured (Some cm_required) (Some az_allow)) = Some az_allow
   \<and> header_values ctx_token (authHeaderName (configured (Some cm_required) (Some az_allow)))
        \<noteq> []
   \<and> (\<exists>ai. GetClaimsCall ai
              \<in> set (snd (Interceptor (configured (Some cm_required) (Some az_allow))
                            ctx_token req_ns1 info_start handler_echo)))"
proof -
  have h1: "claimMapper (configured (Some cm_required) (Some az_allow)) = Some cm_required"
    by (simp add: configured_def)
  have h2: "authorizer (configured (Some cm_required) (Some az_allow)) = Some az_allow"
    by (simp add: configured_def)
  have h3: "header_values ctx_token
              (authHeaderName (configured (Some cm_required) (Some az_allow))) \<noteq> []"
    by (simp add: configured_def header_values_def md_get_def ctx_token_def)
  from GetClaims_invoked_iff [OF h1 h2, of ctx_token req_ns1 info_start handler_echo] h3
  have "\<exists>ai. GetClaimsCall ai
              \<in> set (snd (Interceptor (configured (Some cm_required) (Some az_allow))
                            ctx_token req_ns1 info_start handler_echo))"
    by blast
  with h1 h2 h3 show ?thesis by (intro conjI)
qed

subsection \<open>Calls and metrics of a call, counted\<close>

lemma GetClaims_calls_simps:
  "GetClaims_calls [] = []"
  "GetClaims_calls (e # es)
     = (case e of GetClaimsCall ai \<Rightarrow> [ai] | _ \<Rightarrow> []) @ GetClaims_calls es"
  "GetClaims_calls (xs @ ys) = GetClaims_calls xs @ GetClaims_calls ys"
  by (simp_all add: GetClaims_calls_def)

lemma Authorize_calls_simps:
  "Authorize_calls [] = []"
  "Authorize_calls (e # es)
     = (case e of AuthorizeCall c cl t \<Rightarrow> [(c, cl, t)] | _ \<Rightarrow> []) @ Authorize_calls es"
  "Authorize_calls (xs @ ys) = Authorize_calls xs @ Authorize_calls ys"
  by (simp_all add: Authorize_calls_def)

lemma counter_records_simps:
  "counter_records [] = []"
  "counter_records (e # es)
     = (case e of CounterRecord h m v \<Rightarrow> [(h, m, v)] | _ \<Rightarrow> []) @ counter_records es"
  "counter_records (xs @ ys) = counter_records xs @ counter_records ys"
  by (simp_all add: counter_records_def)

lemma timer_records_simps:
  "timer_records [] = []"
  "timer_records (e # es)
     = (case e of TimerRecord h m \<Rightarrow> [(h, m)] | _ \<Rightarrow> []) @ timer_records es"
  "timer_records (xs @ ys) = timer_records xs @ timer_records ys"
  by (simp_all add: timer_records_def)

lemmas calls_simps =
  GetClaims_calls_simps Authorize_calls_simps counter_records_simps timer_records_simps

lemma aud_silent:
  assumes "aud = [] \<or> aud = [AudienceCall ctx req info]"
  shows "GetClaims_calls aud = []" "Authorize_calls aud = []"
    "counter_records aud = []" "timer_records aud = []"
  using assms by (auto simp: calls_simps)

text \<open>
  The calls and metrics of a whole call once the first block has fallen through: the
  authorizer, the timer and the counters all belong to the second block.
\<close>

lemma Interceptor_counted:
  fixes a :: "'c interceptor" and req :: message and info :: UnaryServerInfo
  defines "ns \<equiv> (case req of WithNamespace n payload \<Rightarrow> n | _ \<Rightarrow> '''')"
  defines "h \<equiv> getMetricsHandler a AuthorizationScope ns"
  defines "target \<equiv> \<lparr>Namespace = ns, APIName = FullMethod info, Request = req\<rparr>"
  assumes blk1: "Interceptor_claims a ctx req info = (Continue cl c, tr1)"
    and quiet: "Authorize_calls tr1 = []" "counter_records tr1 = []" "timer_records tr1 = []"
      "\<forall>c r. HandlerCall c r \<notin> set tr1"
  obtains
    (disabled)
      "authorizer a = None"
      "GetClaims_calls (snd (Interceptor a ctx req info handler)) = GetClaims_calls tr1"
      "Authorize_calls (snd (Interceptor a ctx req info handler)) = []"
      "counter_records (snd (Interceptor a ctx req info handler)) = []"
      "timer_records (snd (Interceptor a ctx req info handler)) = []"
  | (failed) az result e where
      "authorizer a = Some az" "az c cl target = (result, Some e)"
      "GetClaims_calls (snd (Interceptor a ctx req info handler)) = GetClaims_calls tr1"
      "Authorize_calls (snd (Interceptor a ctx req info handler)) = [(c, cl, target)]"
      "counter_records (snd (Interceptor a ctx req info handler))
         = [(h, ServiceErrAuthorizeFailedCounter, 1)]"
      "timer_records (snd (Interceptor a ctx req info handler))
         = [(h, ServiceAuthorizationLatency)]"
      "fst (Interceptor a ctx req info handler) = Inr (NilMessage, Some errUnauthorized)"
      "\<forall>c r. HandlerCall c r \<notin> set (snd (Interceptor a ctx req info handler))"
  | (denied) az result where
      "authorizer a = Some az" "az c cl target = (result, None)"
      "Decision result \<noteq> DecisionAllow"
      "GetClaims_calls (snd (Interceptor a ctx req info handler)) = GetClaims_calls tr1"
      "Authorize_calls (snd (Interceptor a ctx req info handler)) = [(c, cl, target)]"
      "counter_records (snd (Interceptor a ctx req info handler))
         = [(h, ServiceErrUnauthorizedCounter, 1)]"
      "timer_records (snd (Interceptor a ctx req info handler))
         = [(h, ServiceAuthorizationLatency)]"
      "fst (Interceptor a ctx req info handler)
         = Inr (NilMessage,
                Some (if Reason result \<noteq> ''''
                      then PermissionDenied RequestUnauthorized (Reason result)
                      else errUnauthorized))"
      "\<forall>c r. HandlerCall c r \<notin> set (snd (Interceptor a ctx req info handler))"
  | (allowed) az result where
      "authorizer a = Some az" "az c cl target = (result, None)"
      "Decision result = DecisionAllow"
      "GetClaims_calls (snd (Interceptor a ctx req info handler)) = GetClaims_calls tr1"
      "Authorize_calls (snd (Interceptor a ctx req info handler)) = [(c, cl, target)]"
      "counter_records (snd (Interceptor a ctx req info handler)) = []"
      "timer_records (snd (Interceptor a ctx req info handler))
         = [(h, ServiceAuthorizationLatency)]"
  using blk1
proof (cases rule: Interceptor_proceed [where handler = handler])
  case disabled
  from disabled(2) quiet
  have "GetClaims_calls (snd (Interceptor a ctx req info handler)) = GetClaims_calls tr1"
    "Authorize_calls (snd (Interceptor a ctx req info handler)) = []"
    "counter_records (snd (Interceptor a ctx req info handler)) = []"
    "timer_records (snd (Interceptor a ctx req info handler)) = []"
    by (simp_all add: calls_simps)
  with disabled(1) show ?thesis by (rule that(1))
next
  case (failed az result e)
  from failed(3) quiet
  have "GetClaims_calls (snd (Interceptor a ctx req info handler)) = GetClaims_calls tr1"
    "Authorize_calls (snd (Interceptor a ctx req info handler)) = [(c, cl, target)]"
    "counter_records (snd (Interceptor a ctx req info handler))
         = [(h, ServiceErrAuthorizeFailedCounter, 1)]"
    "timer_records (snd (Interceptor a ctx req info handler))
         = [(h, ServiceAuthorizationLatency)]"
    "fst (Interceptor a ctx req info handler) = Inr (NilMessage, Some errUnauthorized)"
    "\<forall>c r. HandlerCall c r \<notin> set (snd (Interceptor a ctx req info handler))"
    by (simp_all add: calls_simps target_def h_def ns_def)
  with failed(1) failed(2) [folded ns_def, folded target_def] show ?thesis
    by (rule that(2))
next
  case (denied az result)
  from denied(4) quiet
  have "GetClaims_calls (snd (Interceptor a ctx req info handler)) = GetClaims_calls tr1"
    "Authorize_calls (snd (Interceptor a ctx req info handler)) = [(c, cl, target)]"
    "counter_records (snd (Interceptor a ctx req info handler))
         = [(h, ServiceErrUnauthorizedCounter, 1)]"
    "timer_records (snd (Interceptor a ctx req info handler))
         = [(h, ServiceAuthorizationLatency)]"
    "fst (Interceptor a ctx req info handler)
         = Inr (NilMessage,
                Some (if Reason result \<noteq> ''''
                      then PermissionDenied RequestUnauthorized (Reason result)
                      else errUnauthorized))"
    "\<forall>c r. HandlerCall c r \<notin> set (snd (Interceptor a ctx req info handler))"
    by (simp_all add: calls_simps target_def h_def ns_def)
  with denied(1) denied(2) [folded ns_def, folded target_def] denied(3) show ?thesis
    by (rule that(3))
next
  case (allowed az result)
  from allowed(4) quiet
  have "GetClaims_calls (snd (Interceptor a ctx req info handler)) = GetClaims_calls tr1"
    "Authorize_calls (snd (Interceptor a ctx req info handler)) = [(c, cl, target)]"
    "counter_records (snd (Interceptor a ctx req info handler)) = []"
    "timer_records (snd (Interceptor a ctx req info handler))
         = [(h, ServiceAuthorizationLatency)]"
    by (simp_all add: calls_simps target_def h_def ns_def)
  with allowed(1) allowed(2) [folded ns_def, folded target_def] allowed(3) show ?thesis
    by (rule that(4))
qed

lemma in_GetClaims_calls:
  "ai \<in> set (GetClaims_calls tr) \<longleftrightarrow> GetClaimsCall ai \<in> set tr"
  by (induction tr) (auto simp: calls_simps split: event.splits)

lemma in_Authorize_calls:
  "(c, cl, t) \<in> set (Authorize_calls tr) \<longleftrightarrow> AuthorizeCall c cl t \<in> set tr"
  by (induction tr) (auto simp: calls_simps split: event.splits)

lemma claims_trace_counted:
  assumes "aud = [] \<or> aud = [AudienceCall ctx req info]"
  shows "GetClaims_calls (aud @ [GetClaimsCall ai]) = [ai]"
    "Authorize_calls (aud @ [GetClaimsCall ai]) = []"
    "counter_records (aud @ [GetClaimsCall ai]) = []"
    "timer_records (aud @ [GetClaimsCall ai]) = []"
    "GetClaims_calls (aud @ [GetClaimsCall ai, LoggerError s e]) = [ai]"
    "Authorize_calls (aud @ [GetClaimsCall ai, LoggerError s e]) = []"
    "counter_records (aud @ [GetClaimsCall ai, LoggerError s e]) = []"
    "timer_records (aud @ [GetClaimsCall ai, LoggerError s e]) = []"
  by (simp_all add: calls_simps aud_silent [OF assms])

text \<open>
  The whole call, by what the claim mapper did: it was not called; it failed, and the
  call ends there; or it succeeded, and the authorizer is called with its claims and
  the enriched context.
\<close>

lemma Interceptor_mapping_cases:
  fixes a :: "'c interceptor" and req :: message and info :: UnaryServerInfo
  defines "ns \<equiv> (case req of WithNamespace n payload \<Rightarrow> n | _ \<Rightarrow> '''')"
  defines "h \<equiv> getMetricsHandler a AuthorizationScope ns"
  defines "target \<equiv> \<lparr>Namespace = ns, APIName = FullMethod info, Request = req\<rparr>"
  obtains
    (unmapped)
      "claimMapper a = None \<or> authorizer a = None
       \<or> (\<exists>cm. claimMapper a = Some cm
              \<and> PeerCert (TLSInfoFormContext ctx) = Inr None
              \<and> header_values ctx (authHeaderName a) = []
              \<and> AuthInfoRequired cm \<noteq> Some False)"
      "GetClaims_calls (snd (Interceptor a ctx req info handler)) = []"
      "authorizer a = None
         \<and> Authorize_calls (snd (Interceptor a ctx req info handler)) = []
         \<and> timer_records (snd (Interceptor a ctx req info handler)) = []
       \<or> authorizer a \<noteq> None
         \<and> Authorize_calls (snd (Interceptor a ctx req info handler)) = [(ctx, None, target)]
         \<and> timer_records (snd (Interceptor a ctx req info handler))
              = [(h, ServiceAuthorizationLatency)]"
  | (mapper_failed) cm clientCert ai mc err where
      "claimMapper a = Some cm" "authorizer a \<noteq> None"
      "PeerCert (TLSInfoFormContext ctx) = Inr clientCert"
      "TLSSubject ai = map_option Subject clientCert"
      "GetClaims cm ai = (mc, Some err)"
      "GetClaims_calls (snd (Interceptor a ctx req info handler)) = [ai]"
      "Authorize_calls (snd (Interceptor a ctx req info handler)) = []"
      "counter_records (snd (Interceptor a ctx req info handler)) = []"
      "timer_records (snd (Interceptor a ctx req info handler)) = []"
      "LoggerError ''Authorization error'' err
         \<in> set (snd (Interceptor a ctx req info handler))"
  | (mapper_succeeded) cm clientCert ai mc where
      "claimMapper a = Some cm" "authorizer a \<noteq> None"
      "PeerCert (TLSInfoFormContext ctx) = Inr clientCert"
      "TLSSubject ai = map_option Subject clientCert"
      "GetClaims cm ai = (mc, None)"
      "GetClaims_calls (snd (Interceptor a ctx req info handler)) = [ai]"
      "Authorize_calls (snd (Interceptor a ctx req info handler))
         = [(if AuthToken ai \<noteq> ''''
             then WithValue (WithValue ctx MappedClaims (ClaimsValue mc))
                    AuthHeader (StringValue (AuthToken ai))
             else WithValue ctx MappedClaims (ClaimsValue mc),
             mc, target)]"
      "timer_records (snd (Interceptor a ctx req info handler))
         = [(h, ServiceAuthorizationLatency)]"
proof (cases rule: Interceptor_claims_cases [of a ctx req info])
  case skipped
  have q: "Authorize_calls ([] :: 'c event list) = []"
    "counter_records ([] :: 'c event list) = []" "timer_records ([] :: 'c event list) = []"
    "\<forall>c r. HandlerCall c r \<notin> set ([] :: 'c event list)"
    by (simp_all add: calls_simps)
  from skipped(2) q
  have "GetClaims_calls (snd (Interceptor a ctx req info handler)) = []
      \<and> (authorizer a = None
         \<and> Authorize_calls (snd (Interceptor a ctx req info handler)) = []
         \<and> timer_records (snd (Interceptor a ctx req info handler)) = []
       \<or> authorizer a \<noteq> None
         \<and> Authorize_calls (snd (Interceptor a ctx req info handler)) = [(ctx, None, target)]
         \<and> timer_records (snd (Interceptor a ctx req info handler))
              = [(h, ServiceAuthorizationLatency)])"
    unfolding target_def h_def ns_def
    by (cases rule: Interceptor_counted [where handler = handler])
       (simp_all add: calls_simps)
  with skipped(1) show ?thesis using unmapped by blast
next
  case (rejected cm clientCert ai mc err aud)
  note cnt = claims_trace_counted [OF rejected(7)]
  have sub: "TLSSubject ai = map_option Subject clientCert" by (simp add: rejected(5))
  from Interceptor_rejected [OF rejected(8), of handler]
  have tr: "snd (Interceptor a ctx req info handler)
              = aud @ [GetClaimsCall ai, LoggerError ''Authorization error'' err]"
    by simp
  have lg: "LoggerError ''Authorization error'' err
         \<in> set (snd (Interceptor a ctx req info handler))"
    by (simp add: tr)
  have c: "GetClaims_calls (snd (Interceptor a ctx req info handler)) = [ai]"
    "Authorize_calls (snd (Interceptor a ctx req info handler)) = []"
    "counter_records (snd (Interceptor a ctx req info handler)) = []"
    "timer_records (snd (Interceptor a ctx req info handler)) = []"
    by (simp_all only: tr cnt)
  show ?thesis
    using rejected(1,2,3) sub rejected(6) c lg
    by (rule mapper_failed)
next
  case (mapped cm clientCert ai mc aud)
  note cnt = claims_trace_counted [OF mapped(7)]
  have sub: "TLSSubject ai = map_option Subject clientCert" by (simp add: mapped(5))
  have nh: "\<forall>c r. HandlerCall c r \<notin> set (aud @ [GetClaimsCall ai])"
    using aud_events(1) [OF mapped(7)] by simp
  from mapped(8) cnt(2,3,4) nh
  have "GetClaims_calls (snd (Interceptor a ctx req info handler)) = [ai]
     \<and> Authorize_calls (snd (Interceptor a ctx req info handler))
         = [(if AuthToken ai \<noteq> ''''
             then WithValue (WithValue ctx MappedClaims (ClaimsValue mc))
                    AuthHeader (StringValue (AuthToken ai))
             else WithValue ctx MappedClaims (ClaimsValue mc),
             mc, target)]
     \<and> timer_records (snd (Interceptor a ctx req info handler))
         = [(h, ServiceAuthorizationLatency)]"
    unfolding target_def h_def ns_def
    using mapped(2)
    by (cases rule: Interceptor_counted [where handler = handler])
       (simp_all add: cnt(1))
  then show ?thesis
    using mapper_succeeded [OF mapped(1,2,3) sub mapped(6)] by blast
qed

subsection \<open>When values are attached to the context\<close>

text \<open>What is attached to a context that reaches the authorizer or the handler.\<close>

lemma passed_context_attached:
  assumes passed: "HandlerCall ctx' r \<in> set (snd (Interceptor a ctx req info handler))
                   \<or> AuthorizeCall ctx' cl t \<in> set (snd (Interceptor a ctx req info handler))"
  shows
    "(ctx' = ctx
      \<or> (\<exists>cm ai mc.
            claimMapper a = Some cm \<and> authorizer a \<noteq> None
          \<and> GetClaimsCall ai \<in> set (snd (Interceptor a ctx req info handler))
          \<and> GetClaims cm ai = (mc, None)
          \<and> ((\<exists>cert. PeerCert (TLSInfoFormContext ctx) = Inr (Some cert))
               \<or> header_values ctx (authHeaderName a) \<noteq> []
               \<or> AuthInfoRequired cm = Some False)))
     \<and> ((\<forall>ai. GetClaimsCall ai \<notin> set (snd (Interceptor a ctx req info handler)))
        \<longrightarrow> ctx' = ctx)
     \<and> (\<forall>cm ai mc.
           claimMapper a = Some cm
           \<and> GetClaimsCall ai \<in> set (snd (Interceptor a ctx req info handler))
           \<and> GetClaims cm ai = (mc, None)
          \<longrightarrow> AuthToken ai
                = (case header_values ctx (authHeaderName a) of [] \<Rightarrow> '''' | v # _ \<Rightarrow> v)
            \<and> ctx' = (if AuthToken ai \<noteq> ''''
                      then WithValue (WithValue ctx MappedClaims (ClaimsValue mc))
                             AuthHeader (StringValue (AuthToken ai))
                      else WithValue ctx MappedClaims (ClaimsValue mc))
            \<and> Value ctx' MappedClaims = Some (ClaimsValue mc)
            \<and> Value ctx' AuthHeader
                = (if AuthToken ai \<noteq> '''' then Some (StringValue (AuthToken ai))
                   else Value ctx AuthHeader)
            \<and> (\<exists>cl' t'. AuthorizeCall ctx' cl' t'
                          \<in> set (snd (Interceptor a ctx req info handler))))
     \<and> (PeerCert (TLSInfoFormContext ctx) = Inr None
        \<and> header_values ctx (authHeaderName a) = []
        \<and> (\<forall>cm. claimMapper a = Some cm \<longrightarrow> AuthInfoRequired cm \<noteq> Some False)
        \<longrightarrow> ctx' = ctx)"
  using passed
proof (cases rule: passed_context_cases)
  case unchanged
  then show ?thesis by simp
next
  case (enriched cm clientCert ai mc)
  from enriched(3,4)
  have ev: "(\<exists>cert. PeerCert (TLSInfoFormContext ctx) = Inr (Some cert))
               \<or> header_values ctx (authHeaderName a) \<noteq> []
               \<or> AuthInfoRequired cm = Some False"
    by auto
  have inv: "GetClaimsCall ai \<in> set (snd (Interceptor a ctx req info handler))"
    using enriched(7) by simp
  have c1: "\<exists>cm ai mc.
            claimMapper a = Some cm \<and> authorizer a \<noteq> None
          \<and> GetClaimsCall ai \<in> set (snd (Interceptor a ctx req info handler))
          \<and> GetClaims cm ai = (mc, None)
          \<and> ((\<exists>cert. PeerCert (TLSInfoFormContext ctx) = Inr (Some cert))
               \<or> header_values ctx (authHeaderName a) \<noteq> []
               \<or> AuthInfoRequired cm = Some False)"
    using enriched(1,2,6) inv ev by blast
  have c2: "\<not> (\<forall>ai. GetClaimsCall ai \<notin> set (snd (Interceptor a ctx req info handler)))"
    using inv by blast
  have same: "\<forall>cm' ai' mc'.
           claimMapper a = Some cm'
           \<and> GetClaimsCall ai' \<in> set (snd (Interceptor a ctx req info handler))
           \<and> GetClaims cm' ai' = (mc', None)
          \<longrightarrow> cm' = cm \<and> ai' = ai \<and> mc' = mc"
    using enriched(1,6,7) by auto
  have tok: "AuthToken ai
                = (case header_values ctx (authHeaderName a) of [] \<Rightarrow> '''' | v # _ \<Rightarrow> v)"
    by (simp add: enriched(5) first_or_empty_def)
  have v1: "Value ctx' MappedClaims = Some (ClaimsValue mc)"
    by (simp add: enriched(8) Value_WithValue)
  have v2: "Value ctx' AuthHeader
                = (if AuthToken ai \<noteq> '''' then Some (StringValue (AuthToken ai))
                   else Value ctx AuthHeader)"
    by (simp add: enriched(8) Value_WithValue)
  have called: "\<exists>cl' t'. AuthorizeCall ctx' cl' t'
                          \<in> set (snd (Interceptor a ctx req info handler))"
  proof (cases rule: Interceptor_mapping_cases [of a ctx req info handler])
    case unmapped
    from unmapped(2) inv show ?thesis by (simp add: in_GetClaims_calls [symmetric])
  next
    case (mapper_failed cm' clientCert' ai' mc' err)
    from mapper_failed(6) inv have "ai' = ai" by (simp add: in_GetClaims_calls [symmetric])
    with mapper_failed(1,5) enriched(1,6) show ?thesis by simp
  next
    case (mapper_succeeded cm' clientCert' ai' mc')
    from mapper_succeeded(6) inv have "ai' = ai" by (simp add: in_GetClaims_calls [symmetric])
    moreover from this mapper_succeeded(1,5) enriched(1,6) have "mc' = mc" by simp
    ultimately have "(ctx', mc,
        \<lparr>Namespace = (case req of WithNamespace n payload \<Rightarrow> n | _ \<Rightarrow> ''''),
         APIName = FullMethod info, Request = req\<rparr>)
        \<in> set (Authorize_calls (snd (Interceptor a ctx req info handler)))"
      using mapper_succeeded(7) enriched(8) by simp
    then show ?thesis by (auto simp: in_Authorize_calls)
  qed
  have c3: "\<forall>cm ai mc.
           claimMapper a = Some cm
           \<and> GetClaimsCall ai \<in> set (snd (Interceptor a ctx req info handler))
           \<and> GetClaims cm ai = (mc, None)
          \<longrightarrow> AuthToken ai
                = (case header_values ctx (authHeaderName a) of [] \<Rightarrow> '''' | v # _ \<Rightarrow> v)
            \<and> ctx' = (if AuthToken ai \<noteq> ''''
                      then WithValue (WithValue ctx MappedClaims (ClaimsValue mc))
                             AuthHeader (StringValue (AuthToken ai))
                      else WithValue ctx MappedClaims (ClaimsValue mc))
            \<and> Value ctx' MappedClaims = Some (ClaimsValue mc)
            \<and> Value ctx' AuthHeader
                = (if AuthToken ai \<noteq> '''' then Some (StringValue (AuthToken ai))
                   else Value ctx AuthHeader)
            \<and> (\<exists>cl' t'. AuthorizeCall ctx' cl' t'
                          \<in> set (snd (Interceptor a ctx req info handler)))"
  proof (intro allI impI)
    fix cm' ai' mc'
    assume A: "claimMapper a = Some cm'
           \<and> GetClaimsCall ai' \<in> set (snd (Interceptor a ctx req info handler))
           \<and> GetClaims cm' ai' = (mc', None)"
    with same have e: "ai' = ai" "mc' = mc" by blast+
    show "AuthToken ai'
                = (case header_values ctx (authHeaderName a) of [] \<Rightarrow> '''' | v # _ \<Rightarrow> v)
            \<and> ctx' = (if AuthToken ai' \<noteq> ''''
                      then WithValue (WithValue ctx MappedClaims (ClaimsValue mc'))
                             AuthHeader (StringValue (AuthToken ai'))
                      else WithValue ctx MappedClaims (ClaimsValue mc'))
            \<and> Value ctx' MappedClaims = Some (ClaimsValue mc')
            \<and> Value ctx' AuthHeader
                = (if AuthToken ai' \<noteq> '''' then Some (StringValue (AuthToken ai'))
                   else Value ctx AuthHeader)
            \<and> (\<exists>cl' t'. AuthorizeCall ctx' cl' t'
                          \<in> set (snd (Interceptor a ctx req info handler)))"
      unfolding e using tok enriched(8) v1 v2 called by (intro conjI)
  qed
  have c4: "\<not> (PeerCert (TLSInfoFormContext ctx) = Inr None
        \<and> header_values ctx (authHeaderName a) = []
        \<and> (\<forall>cm. claimMapper a = Some cm \<longrightarrow> AuthInfoRequired cm \<noteq> Some False))"
    using enriched(1) ev by auto
  from c1 c2 c3 c4 show ?thesis by blast
qed

text \<open>
  C3, as stated, fails: with no certificate and no primary header, a mapper that
  declares auth info not required is still called, and on success its claims are
  attached under \<open>MappedClaims\<close> to the context that reaches the authorizer and the
  handler.
\<close>

theorem optional_mapper_attaches_claims:
  "PeerCert (TLSInfoFormContext ctx_plain) = Inr None
   \<and> header_values ctx_plain
        (authHeaderName (configured (Some cm_anonymous) (Some az_allow))) = []
   \<and> claimMapper (configured (Some cm_anonymous) (Some az_allow)) = Some cm_anonymous
   \<and> AuthInfoRequired cm_anonymous = Some False
   \<and> Value ctx_plain MappedClaims = None
   \<and> HandlerCall ctx_anonymous req_ns1
        \<in> set (snd (Interceptor (configured (Some cm_anonymous) (Some az_allow)) ctx_plain
                      req_ns1 info_start handler_echo))
   \<and> Value ctx_anonymous MappedClaims = Some (ClaimsValue (Some ''anonymous''))"
proof -
  have "PeerCert (TLSInfoFormContext ctx_plain) = Inr None"
    by (simp add: PeerCert_eq TLSInfoFormContext_def ctx_plain_def)
  moreover have "header_values ctx_plain
        (authHeaderName (configured (Some cm_anonymous) (Some az_allow))) = []"
    by (simp add: header_values_def ctx_plain_def)
  moreover have "claimMapper (configured (Some cm_anonymous) (Some az_allow))
                   = Some cm_anonymous"
    by (simp add: configured_def)
  moreover have "AuthInfoRequired cm_anonymous = Some False"
    by (simp add: cm_anonymous_def)
  moreover have "Value ctx_plain MappedClaims = None"
    by (simp add: Value_def ctx_plain_def)
  moreover have "HandlerCall ctx_anonymous req_ns1
        \<in> set (snd (Interceptor (configured (Some cm_anonymous) (Some az_allow)) ctx_plain
                      req_ns1 info_start handler_echo))"
    by (simp add: run_anonymous)
  moreover have "Value ctx_anonymous MappedClaims = Some (ClaimsValue (Some ''anonymous''))"
    by (simp add: ctx_anonymous_def Value_WithValue)
  ultimately show ?thesis by (intro conjI)
qed

text \<open>
  C3, amended. The two context slots are attached only when the claim mapper was
  called and returned no error, which takes a certificate subject, a primary header
  value, or a mapper that declares auth info not required: the context that reaches the
  authorizer or the handler is otherwise the incoming one. When the claim mapper was
  called and returned no error, the authorizer is called with the enriched context, and
  the context that reaches the authorizer and the handler is the incoming one with the
  mapped claims attached under \<open>MappedClaims\<close> and, exactly when the first value of the
  primary header is a non-empty string, that value attached under \<open>AuthHeader\<close>.
  Nothing is attached when no certificate and no primary header exist and the mapper
  requires auth info (it declares so, or does not declare anything).
\<close>

theorem slots_attached_only_after_mapping:
  "(\<forall>ctx' r cl t.
      HandlerCall ctx' r \<in> set (snd (Interceptor a ctx req info handler))
      \<or> AuthorizeCall ctx' cl t \<in> set (snd (Interceptor a ctx req info handler))
      \<longrightarrow> (ctx' = ctx
           \<or> (\<exists>cm ai mc.
                 claimMapper a = Some cm \<and> authorizer a \<noteq> None
               \<and> GetClaimsCall ai \<in> set (snd (Interceptor a ctx req info handler))
               \<and> GetClaims cm ai = (mc, None)
               \<and> ((\<exists>cert. PeerCert (TLSInfoFormContext ctx) = Inr (Some cert))
                    \<or> header_values ctx (authHeaderName a) \<noteq> []
                    \<or> AuthInfoRequired cm = Some False)))
        \<and> ((\<forall>ai. GetClaimsCall ai \<notin> set (snd (Interceptor a ctx req info handler)))
             \<longrightarrow> ctx' = ctx)
        \<and> (PeerCert (TLSInfoFormContext ctx) = Inr None
             \<and> header_values ctx (authHeaderName a) = []
             \<and> (\<forall>cm. claimMapper a = Some cm \<longrightarrow> AuthInfoRequired cm \<noteq> Some False)
             \<longrightarrow> ctx' = ctx))
   \<and> (\<forall>cm ai mc.
        claimMapper a = Some cm
        \<and> GetClaimsCall ai \<in> set (snd (Interceptor a ctx req info handler))
        \<and> GetClaims cm ai = (mc, None)
        \<longrightarrow> AuthToken ai
              = (case header_values ctx (authHeaderName a) of [] \<Rightarrow> '''' | v # _ \<Rightarrow> v)
          \<and> (\<exists>c. c = (if AuthToken ai \<noteq> ''''
                       then WithValue (WithValue ctx MappedClaims (ClaimsValue mc))
                              AuthHeader (StringValue (AuthToken ai))
                       else WithValue ctx MappedClaims (ClaimsValue mc))
                \<and> (\<exists>cl t. Authorize_calls (snd (Interceptor a ctx req info handler))
                             = [(c, cl, t)])
                \<and> (\<forall>ctx' r cl t.
                      HandlerCall ctx' r \<in> set (snd (Interceptor a ctx req info handler))
                      \<or> AuthorizeCall ctx' cl t
                           \<in> set (snd (Interceptor a ctx req info handler))
                      \<longrightarrow> ctx' = c)
                \<and> Value c MappedClaims = Some (ClaimsValue mc)
                \<and> Value c AuthHeader
                    = (if AuthToken ai \<noteq> '''' then Some (StringValue (AuthToken ai))
                       else Value ctx AuthHeader)))"
proof -
  have only: "\<forall>ctx' r cl t.
      HandlerCall ctx' r \<in> set (snd (Interceptor a ctx req info handler))
      \<or> AuthorizeCall ctx' cl t \<in> set (snd (Interceptor a ctx req info handler))
      \<longrightarrow> (ctx' = ctx
           \<or> (\<exists>cm ai mc.
                 claimMapper a = Some cm \<and> authorizer a \<noteq> None
               \<and> GetClaimsCall ai \<in> set (snd (Interceptor a ctx req info handler))
               \<and> GetClaims cm ai = (mc, None)
               \<and> ((\<exists>cert. PeerCert (TLSInfoFormContext ctx) = Inr (Some cert))
                    \<or> header_values ctx (authHeaderName a) \<noteq> []
                    \<or> AuthInfoRequired cm = Some False)))
        \<and> ((\<forall>ai. GetClaimsCall ai \<notin> set (snd (Interceptor a ctx req info handler)))
             \<longrightarrow> ctx' = ctx)
        \<and> (PeerCert (TLSInfoFormContext ctx) = Inr None
             \<and> header_values ctx (authHeaderName a) = []
             \<and> (\<forall>cm. claimMapper a = Some cm \<longrightarrow> AuthInfoRequired cm \<noteq> Some False)
             \<longrightarrow> ctx' = ctx)"
  proof (intro allI impI)
    fix ctx' r cl t
    assume "HandlerCall ctx' r \<in> set (snd (Interceptor a ctx req info handler))
      \<or> AuthorizeCall ctx' cl t \<in> set (snd (Interceptor a ctx req info handler))"
    from passed_context_attached [OF this]
    show "(ctx' = ctx
           \<or> (\<exists>cm ai mc.
                 claimMapper a = Some cm \<and> authorizer a \<noteq> None
               \<and> GetClaimsCall ai \<in> set (snd (Interceptor a ctx req info handler))
               \<and> GetClaims cm ai = (mc, None)
               \<and> ((\<exists>cert. PeerCert (TLSInfoFormContext ctx) = Inr (Some cert))
                    \<or> header_values ctx (authHeaderName a) \<noteq> []
                    \<or> AuthInfoRequired cm = Some False)))
        \<and> ((\<forall>ai. GetClaimsCall ai \<notin> set (snd (Interceptor a ctx req info handler)))
             \<longrightarrow> ctx' = ctx)
        \<and> (PeerCert (TLSInfoFormContext ctx) = Inr None
             \<and> header_values ctx (authHeaderName a) = []
             \<and> (\<forall>cm. claimMapper a = Some cm \<longrightarrow> AuthInfoRequired cm \<noteq> Some False)
             \<longrightarrow> ctx' = ctx)"
      by blast
  qed
  have attached: "\<forall>cm ai mc.
        claimMapper a = Some cm
        \<and> GetClaimsCall ai \<in> set (snd (Interceptor a ctx req info handler))
        \<and> GetClaims cm ai = (mc, None)
        \<longrightarrow> AuthToken ai
              = (case header_values ctx (authHeaderName a) of [] \<Rightarrow> '''' | v # _ \<Rightarrow> v)
          \<and> (\<exists>c. c = (if AuthToken ai \<noteq> ''''
                       then WithValue (WithValue ctx MappedClaims (ClaimsValue mc))
                              AuthHeader (StringValue (AuthToken ai))
                       else WithValue ctx MappedClaims (ClaimsValue mc))
                \<and> (\<exists>cl t. Authorize_calls (snd (Interceptor a ctx req info handler))
                             = [(c, cl, t)])
                \<and> (\<forall>ctx' r cl t.
                      HandlerCall ctx' r \<in> set (snd (Interceptor a ctx req info handler))
                      \<or> AuthorizeCall ctx' cl t
                           \<in> set (snd (Interceptor a ctx req info handler))
                      \<longrightarrow> ctx' = c)
                \<and> Value c MappedClaims = Some (ClaimsValue mc)
                \<and> Value c AuthHeader
                    = (if AuthToken ai \<noteq> '''' then Some (StringValue (AuthToken ai))
                       else Value ctx AuthHeader))"
  proof (intro allI impI)
    fix cm ai mc
    assume A: "claimMapper a = Some cm
        \<and> GetClaimsCall ai \<in> set (snd (Interceptor a ctx req info handler))
        \<and> GetClaims cm ai = (mc, None)"
    define c where "c = (if AuthToken ai \<noteq> ''''
                       then WithValue (WithValue ctx MappedClaims (ClaimsValue mc))
                              AuthHeader (StringValue (AuthToken ai))
                       else WithValue ctx MappedClaims (ClaimsValue mc))"
    from A have inv: "ai \<in> set (GetClaims_calls (snd (Interceptor a ctx req info handler)))"
      by (simp add: in_GetClaims_calls)
    have calls: "\<exists>cl t. Authorize_calls (snd (Interceptor a ctx req info handler))
                             = [(c, cl, t)]"
    proof (cases rule: Interceptor_mapping_cases [of a ctx req info handler])
      case unmapped
      from unmapped(2) inv show ?thesis by simp
    next
      case (mapper_failed cm' clientCert ai' mc' err)
      from mapper_failed(6) inv have "ai' = ai" by simp
      with mapper_failed(1,5) A show ?thesis by simp
    next
      case (mapper_succeeded cm' clientCert ai' mc')
      from mapper_succeeded(6) inv have e: "ai' = ai" by simp
      with mapper_succeeded(1,5) A have "mc' = mc" by simp
      with mapper_succeeded(7) e show ?thesis by (simp add: c_def)
    qed
    then obtain cl t where
      one: "Authorize_calls (snd (Interceptor a ctx req info handler)) = [(c, cl, t)]"
      by blast
    then have "AuthorizeCall c cl t \<in> set (snd (Interceptor a ctx req info handler))"
      by (simp add: in_Authorize_calls [symmetric])
    then have p: "HandlerCall c NilMessage \<in> set (snd (Interceptor a ctx req info handler))
      \<or> AuthorizeCall c cl t \<in> set (snd (Interceptor a ctx req info handler))"
      by (rule disjI2)
    note at_c = passed_context_attached [OF p, THEN conjunct2, THEN conjunct2, THEN conjunct1,
        rule_format, OF A]
    have same: "\<forall>ctx' r cl t.
                      HandlerCall ctx' r \<in> set (snd (Interceptor a ctx req info handler))
                      \<or> AuthorizeCall ctx' cl t
                           \<in> set (snd (Interceptor a ctx req info handler))
                      \<longrightarrow> ctx' = c"
    proof (intro allI impI)
      fix ctx' r cl t
      assume q: "HandlerCall ctx' r \<in> set (snd (Interceptor a ctx req info handler))
                      \<or> AuthorizeCall ctx' cl t
                           \<in> set (snd (Interceptor a ctx req info handler))"
      from passed_context_attached [OF q, THEN conjunct2, THEN conjunct2, THEN conjunct1,
          rule_format, OF A]
      show "ctx' = c" by (simp add: c_def)
    qed
    from at_c calls same
    show "AuthToken ai
              = (case header_values ctx (authHeaderName a) of [] \<Rightarrow> '''' | v # _ \<Rightarrow> v)
          \<and> (\<exists>c. c = (if AuthToken ai \<noteq> ''''
                       then WithValue (WithValue ctx MappedClaims (ClaimsValue mc))
                              AuthHeader (StringValue (AuthToken ai))
                       else WithValue ctx MappedClaims (ClaimsValue mc))
                \<and> (\<exists>cl t. Authorize_calls (snd (Interceptor a ctx req info handler))
                             = [(c, cl, t)])
                \<and> (\<forall>ctx' r cl t.
                      HandlerCall ctx' r \<in> set (snd (Interceptor a ctx req info handler))
                      \<or> AuthorizeCall ctx' cl t
                           \<in> set (snd (Interceptor a ctx req info handler))
                      \<longrightarrow> ctx' = c)
                \<and> Value c MappedClaims = Some (ClaimsValue mc)
                \<and> Value c AuthHeader
                    = (if AuthToken ai \<noteq> '''' then Some (StringValue (AuthToken ai))
                       else Value ctx AuthHeader))"
      unfolding c_def [symmetric] by blast
  qed
  from only attached show ?thesis by (rule conjI)
qed

theorem slots_attached_only_after_mapping_witness:
  "claimMapper (configured (Some cm_token) (Some az_allow)) = Some cm_token
   \<and> GetClaimsCall ai_tokA
        \<in> set (snd (Interceptor (configured (Some cm_token) (Some az_allow)) ctx_token
                      req_ns1 info_start handler_echo))
   \<and> GetClaims cm_token ai_tokA = (Some ''tokA'', None)
   \<and> AuthToken ai_tokA = ''tokA''
   \<and> (\<exists>cl t. Authorize_calls
                (snd (Interceptor (configured (Some cm_token) (Some az_allow)) ctx_token
                        req_ns1 info_start handler_echo)) = [(ctx_tokA, cl, t)])
   \<and> Value ctx_tokA MappedClaims = Some (ClaimsValue (Some ''tokA''))
   \<and> Value ctx_tokA AuthHeader = Some (StringValue ''tokA'')"
proof -
  have m1: "claimMapper (configured (Some cm_token) (Some az_allow)) = Some cm_token"
    by (simp add: configured_def)
  have m2: "GetClaimsCall ai_tokA
        \<in> set (snd (Interceptor (configured (Some cm_token) (Some az_allow)) ctx_token
                      req_ns1 info_start handler_echo))"
    by (simp add: run_token_allow)
  have m3: "GetClaims cm_token ai_tokA = (Some ''tokA'', None)"
    by (simp add: cm_token_def ai_tokA_def)
  have tok: "AuthToken ai_tokA = ''tokA''"
    by (simp add: ai_tokA_def)
  note attached =
    slots_attached_only_after_mapping
      [of "configured (Some cm_token) (Some az_allow)" ctx_token req_ns1 info_start
          handler_echo,
       THEN conjunct2, rule_format, OF conjI [OF m1 conjI [OF m2 m3]], THEN conjunct2]
  from attached
  have "(\<exists>cl t. Authorize_calls
                (snd (Interceptor (configured (Some cm_token) (Some az_allow)) ctx_token
                        req_ns1 info_start handler_echo)) = [(ctx_tokA, cl, t)])
      \<and> Value ctx_tokA MappedClaims = Some (ClaimsValue (Some ''tokA''))
      \<and> Value ctx_tokA AuthHeader = Some (StringValue ''tokA'')"
    by (simp add: tok ctx_tokA_def)
  with m1 m2 m3 tok show ?thesis by (intro conjI) simp_all
qed

subsection \<open>Counters\<close>

text \<open>
  C4, as stated, fails: a failing claim mapper is logged and nothing else, and a call
  without evidence (mapping skipped) records the latency timer only; neither increments
  a counter.
\<close>

theorem mapping_failure_and_absence_uncounted:
  "snd (Interceptor (configured (Some cm_failing) (Some az_allow)) ctx_token req_ns1
          info_start handler_echo)
     = [GetClaimsCall ai_tokA,
        LoggerError ''Authorization error'' (OtherError ''token expired'')]
   \<and> snd (Interceptor (configured (Some cm_required) (Some az_allow)) ctx_plain req_ns1
            info_start handler_echo)
     = [AuthorizeCall ctx_plain None target_ns1,
        TimerRecord tags_ns1 ServiceAuthorizationLatency,
        HandlerCall ctx_plain req_ns1]"
  by (simp add: run_mapper_fails run_no_evidence)

text \<open>
  C4, amended. Two of the four categories increment a distinguishing counter on the
  metrics handler scoped with the call's namespace: when the authorizer returns an
  error, the counter increments of the call are exactly one increment of
  \<open>ServiceErrAuthorizeFailedCounter\<close> by 1; when it returns a decision other than
  allow, exactly one increment of \<open>ServiceErrUnauthorizedCounter\<close> by 1. These are
  the interceptor's only counters: a call in which the authorizer allows, or is not
  called, increments none. In particular an error of the claim mapper is written to the
  logger, the authorizer is not called and no counter is incremented; absence of
  evidence is not counted either.
\<close>

theorem counters_for_authorizer_outcomes_only:
  fixes a :: "'c interceptor" and req :: message
  shows
    "(\<forall>az c cl t result err.
        authorizer a = Some az
        \<and> AuthorizeCall c cl t \<in> set (snd (Interceptor a ctx req info handler))
        \<and> az c cl t = (result, Some err)
        \<longrightarrow> counter_records (snd (Interceptor a ctx req info handler))
             = [(getMetricsHandler a AuthorizationScope
                   (case req of WithNamespace n p \<Rightarrow> n | _ \<Rightarrow> ''''),
                 ServiceErrAuthorizeFailedCounter, 1)])
     \<and> (\<forall>az c cl t result.
        authorizer a = Some az
        \<and> AuthorizeCall c cl t \<in> set (snd (Interceptor a ctx req info handler))
        \<and> az c cl t = (result, None) \<and> Decision result \<noteq> DecisionAllow
        \<longrightarrow> counter_records (snd (Interceptor a ctx req info handler))
             = [(getMetricsHandler a AuthorizationScope
                   (case req of WithNamespace n p \<Rightarrow> n | _ \<Rightarrow> ''''),
                 ServiceErrUnauthorizedCounter, 1)])
     \<and> (\<forall>az c cl t result.
        authorizer a = Some az
        \<and> AuthorizeCall c cl t \<in> set (snd (Interceptor a ctx req info handler))
        \<and> az c cl t = (result, None) \<and> Decision result = DecisionAllow
        \<longrightarrow> counter_records (snd (Interceptor a ctx req info handler)) = [])
     \<and> ((\<forall>c cl t. AuthorizeCall c cl t \<notin> set (snd (Interceptor a ctx req info handler)))
        \<longrightarrow> counter_records (snd (Interceptor a ctx req info handler)) = [])
     \<and> (\<forall>cm ai mc err.
        claimMapper a = Some cm
        \<and> GetClaimsCall ai \<in> set (snd (Interceptor a ctx req info handler))
        \<and> GetClaims cm ai = (mc, Some err)
        \<longrightarrow> LoggerError ''Authorization error'' err
               \<in> set (snd (Interceptor a ctx req info handler))
            \<and> Authorize_calls (snd (Interceptor a ctx req info handler)) = []
            \<and> counter_records (snd (Interceptor a ctx req info handler)) = [])"
proof (cases rule: Interceptor_claims_cases [of a ctx req info])
  case skipped
  have q: "Authorize_calls ([] :: 'c event list) = []"
    "counter_records ([] :: 'c event list) = []" "timer_records ([] :: 'c event list) = []"
    "\<forall>c r. HandlerCall c r \<notin> set ([] :: 'c event list)"
    by (simp_all add: calls_simps)
  from skipped(2) q show ?thesis
  proof (cases rule: Interceptor_counted [where handler = handler])
    case disabled
    from disabled(2,3,4) show ?thesis
      by (simp add: in_Authorize_calls [symmetric] in_GetClaims_calls [symmetric]
          calls_simps)
  next
    case (failed az result e)
    from failed(1,2,3,4,5) show ?thesis
      by (auto simp: in_Authorize_calls [symmetric] in_GetClaims_calls [symmetric]
          calls_simps simp del: not_None_eq)
  next
    case (denied az result)
    from denied(1,2,3,4,5,6) show ?thesis
      by (auto simp: in_Authorize_calls [symmetric] in_GetClaims_calls [symmetric]
          calls_simps simp del: not_None_eq)
  next
    case (allowed az result)
    from allowed(1,2,3,4,5,6) show ?thesis
      by (auto simp: in_Authorize_calls [symmetric] in_GetClaims_calls [symmetric]
          calls_simps simp del: not_None_eq)
  qed
next
  case (rejected cm clientCert ai mc err aud)
  note cnt = claims_trace_counted [OF rejected(7)]
  from Interceptor_rejected [OF rejected(8), of handler]
  have tr: "snd (Interceptor a ctx req info handler)
              = aud @ [GetClaimsCall ai, LoggerError ''Authorization error'' err]"
    by simp
  have c: "GetClaims_calls (snd (Interceptor a ctx req info handler)) = [ai]"
    "Authorize_calls (snd (Interceptor a ctx req info handler)) = []"
    "counter_records (snd (Interceptor a ctx req info handler)) = []"
    by (simp_all only: tr cnt)
  have lg: "LoggerError ''Authorization error'' err
         \<in> set (snd (Interceptor a ctx req info handler))"
    by (simp add: tr)
  from c lg rejected(1,6) show ?thesis
    by (auto simp: in_Authorize_calls [symmetric] in_GetClaims_calls [symmetric]
        simp del: not_None_eq)
next
  case (mapped cm clientCert ai mc aud)
  note cnt = claims_trace_counted [OF mapped(7)]
  have nh: "\<forall>c r. HandlerCall c r \<notin> set (aud @ [GetClaimsCall ai])"
    using aud_events(1) [OF mapped(7)] by simp
  from mapped(8) cnt(2,3,4) nh show ?thesis
  proof (cases rule: Interceptor_counted [where handler = handler])
    case disabled
    with mapped(2) show ?thesis by simp
  next
    case (failed az result e)
    from failed(1,2,3,4,5) cnt(1) mapped(1,6) show ?thesis
      by (auto simp: in_Authorize_calls [symmetric] in_GetClaims_calls [symmetric]
          simp del: not_None_eq)
  next
    case (denied az result)
    from denied(1,2,3,4,5,6) cnt(1) mapped(1,6) show ?thesis
      by (auto simp: in_Authorize_calls [symmetric] in_GetClaims_calls [symmetric]
          simp del: not_None_eq)
  next
    case (allowed az result)
    from allowed(1,2,3,4,5,6) cnt(1) mapped(1,6) show ?thesis
      by (auto simp: in_Authorize_calls [symmetric] in_GetClaims_calls [symmetric]
          simp del: not_None_eq)
  qed
qed

theorem counters_for_authorizer_outcomes_only_witness:
  "authorizer (configured (Some cm_token) (Some az_failing)) = Some az_failing
   \<and> AuthorizeCall ctx_tokA (Some ''tokA'')
        \<lparr>Namespace = '''', APIName = ''/svc/Start'', Request = Opaque ''list''\<rparr>
        \<in> set (snd (Interceptor (configured (Some cm_token) (Some az_failing)) ctx_token
                      (Opaque ''list'') info_start handler_echo))
   \<and> az_failing ctx_tokA (Some ''tokA'')
        \<lparr>Namespace = '''', APIName = ''/svc/Start'', Request = Opaque ''list''\<rparr>
       = (\<lparr>Decision = DecisionDeny, Reason = ''''\<rparr>, Some (OtherError ''policy store down''))
   \<and> counter_records
        (snd (Interceptor (configured (Some cm_token) (Some az_failing)) ctx_token
                (Opaque ''list'') info_start handler_echo))
       = [(getMetricsHandler (configured (Some cm_token) (Some az_failing))
             AuthorizationScope
             (case Opaque ''list'' of WithNamespace n p \<Rightarrow> n | _ \<Rightarrow> ''''),
           ServiceErrAuthorizeFailedCounter, 1)]"
proof -
  have h1: "authorizer (configured (Some cm_token) (Some az_failing)) = Some az_failing"
    by (simp add: configured_def)
  have h2: "AuthorizeCall ctx_tokA (Some ''tokA'')
        \<lparr>Namespace = '''', APIName = ''/svc/Start'', Request = Opaque ''list''\<rparr>
        \<in> set (snd (Interceptor (configured (Some cm_token) (Some az_failing)) ctx_token
                      (Opaque ''list'') info_start handler_echo))"
    by (simp add: run_authorizer_fails)
  have h3: "az_failing ctx_tokA (Some ''tokA'')
        \<lparr>Namespace = '''', APIName = ''/svc/Start'', Request = Opaque ''list''\<rparr>
       = (\<lparr>Decision = DecisionDeny, Reason = ''''\<rparr>, Some (OtherError ''policy store down''))"
    by (simp add: az_failing_def)
  note counted =
    counters_for_authorizer_outcomes_only
      [of "configured (Some cm_token) (Some az_failing)" ctx_token "Opaque ''list''"
          info_start handler_echo,
       THEN conjunct1, rule_format, OF conjI [OF h1 conjI [OF h2 h3]]]
  from h1 h2 h3 counted show ?thesis by (intro conjI)
qed

subsection \<open>The certificate subject reaches the claim mapper\<close>

text \<open>
  C5, as stated, fails: a claim mapper configured without an authorizer is never
  called, whatever the certificate; the call goes straight to the handler.
\<close>

theorem mapper_without_authorizer_not_invoked:
  "claimMapper (configured (Some cm_required) None) = Some cm_required
   \<and> AuthInfoRequired cm_required = Some True
   \<and> PeerCert (TLSInfoFormContext ctx_mtls) = Inr (Some cert_alice)
   \<and> Interceptor (configured (Some cm_required) None) ctx_mtls req_ns1 info_start
        handler_echo
       = (Inr (req_ns1, None), [HandlerCall ctx_mtls req_ns1])"
proof -
  have "claimMapper (configured (Some cm_required) None) = Some cm_required"
    by (simp add: configured_def)
  moreover have "AuthInfoRequired cm_required = Some True"
    by (simp add: cm_required_def)
  moreover have "PeerCert (TLSInfoFormContext ctx_mtls) = Inr (Some cert_alice)"
    by (simp add: PeerCert_eq TLSInfoFormContext_def ctx_mtls_def tls_alice_def)
  ultimately show ?thesis using run_mapper_only by (intro conjI)
qed

text \<open>
  C5, amended. For every call that carries a verified client certificate (the peer's
  auth info is a TLS info whose first verified chain starts with a certificate), when
  both a claim mapper and an authorizer are configured and the mapper declares auth
  info required, the claim mapper is invoked, and the \<open>AuthInfo\<close> it receives has
  \<open>TLSSubject\<close> set to the subject of that certificate. The theorem shows more: the
  declaration of the mapper plays no role, and the calls of the claim mapper in the
  whole call are this one call.
\<close>

theorem GetClaims_receives_TLSSubject:
  assumes cm: "claimMapper a = Some cm" and az: "authorizer a = Some az"
    and p: "peer ctx = Some p" and t: "peer_AuthInfo p = TLSInfoCredentials tlsInfo"
    and vc: "VerifiedChains (State tlsInfo) = (Some cert # certs) # others"
  shows "\<exists>ai. GetClaims_calls (snd (Interceptor a ctx req info handler)) = [ai]
              \<and> GetClaimsCall ai \<in> set (snd (Interceptor a ctx req info handler))
              \<and> TLSSubject ai = Some (Subject cert)"
proof -
  have tls: "TLSInfoFormContext ctx = Some tlsInfo"
    using p t by (simp add: TLSInfoFormContext_def)
  have pc: "PeerCert (TLSInfoFormContext ctx) = Inr (Some cert)"
    using vc by (simp add: tls PeerCert_eq)
  have found: ?thesis
    if calls: "GetClaims_calls (snd (Interceptor a ctx req info handler)) = [ai]"
      and cc: "PeerCert (TLSInfoFormContext ctx) = Inr clientCert"
      and sub: "TLSSubject ai = map_option Subject clientCert" for ai clientCert
  proof -
    from cc pc have "clientCert = Some cert" by simp
    with sub have s: "TLSSubject ai = Some (Subject cert)" by simp
    have "GetClaimsCall ai \<in> set (snd (Interceptor a ctx req info handler))"
      by (simp add: in_GetClaims_calls [symmetric] calls)
    with calls s show ?thesis by blast
  qed
  show ?thesis
  proof (cases rule: Interceptor_mapping_cases [of a ctx req info handler])
    case unmapped
    from unmapped(1) cm az pc show ?thesis by simp
  next
    case (mapper_failed cm' clientCert ai mc err)
    from mapper_failed(6,3,4) show ?thesis by (rule found)
  next
    case (mapper_succeeded cm' clientCert ai mc)
    from mapper_succeeded(6,3,4) show ?thesis by (rule found)
  qed
qed

theorem GetClaims_receives_TLSSubject_witness:
  "claimMapper (configured (Some cm_required) (Some az_deny)) = Some cm_required
   \<and> authorizer (configured (Some cm_required) (Some az_deny)) = Some az_deny
   \<and> peer ctx_mtls = Some \<lparr>peer_AuthInfo = TLSInfoCredentials tls_alice\<rparr>
   \<and> VerifiedChains (State tls_alice) = (Some cert_alice # []) # []
   \<and> (\<exists>ai. GetClaims_calls
               (snd (Interceptor (configured (Some cm_required) (Some az_deny)) ctx_mtls
                       req_ns1 info_start handler_echo)) = [ai]
           \<and> TLSSubject ai = Some (Subject cert_alice))"
proof -
  have h1: "claimMapper (configured (Some cm_required) (Some az_deny)) = Some cm_required"
    by (simp add: configured_def)
  have h2: "authorizer (configured (Some cm_required) (Some az_deny)) = Some az_deny"
    by (simp add: configured_def)
  have h3: "peer ctx_mtls = Some \<lparr>peer_AuthInfo = TLSInfoCredentials tls_alice\<rparr>"
    by (simp add: ctx_mtls_def)
  have h4: "peer_AuthInfo \<lparr>peer_AuthInfo = TLSInfoCredentials tls_alice\<rparr>
              = TLSInfoCredentials tls_alice"
    by simp
  have h5: "VerifiedChains (State tls_alice) = (Some cert_alice # []) # []"
    by (simp add: tls_alice_def)
  from GetClaims_receives_TLSSubject
         [OF h1 h2 h3 h4 h5, of req_ns1 info_start handler_echo]
  have "\<exists>ai. GetClaims_calls
               (snd (Interceptor (configured (Some cm_required) (Some az_deny)) ctx_mtls
                       req_ns1 info_start handler_echo)) = [ai]
           \<and> TLSSubject ai = Some (Subject cert_alice)"
    by blast
  with h1 h2 h3 h5 show ?thesis by (intro conjI)
qed

subsection \<open>A negative decision with a reason\<close>

lemma run_deny_ns1:
  "Interceptor (configured (Some cm_required) (Some az_deny_ns1)) ctx_mtls req_ns1
     info_start handler_echo
   = (Inr (NilMessage, Some (PermissionDenied RequestUnauthorized ''missing scope'')),
      [GetClaimsCall ai_alice,
       AuthorizeCall ctx_alice (Some '''') target_ns1,
       TimerRecord tags_ns1 ServiceAuthorizationLatency,
       CounterRecord tags_ns1 ServiceErrUnauthorizedCounter 1])"
  by (simp add: model_defs example_defs)

text \<open>
  C6. In a call where the claim mapper, if it is called, returns no error on the
  \<open>AuthInfo\<close> it receives, and the configured authorizer returns the decision deny with
  reason "missing scope" and no error on the arguments it is called with, the authorizer
  is called, the interceptor returns a nil response with a permission denied error whose
  message is "Request unauthorized." and whose reason is exactly "missing scope", and
  the handler is never called. Nothing is assumed of what the collaborators return on
  other arguments.
\<close>

theorem deny_reason_surfaced:
  assumes az: "authorizer a = Some az"
    and maps: "\<forall>cm ai. claimMapper a = Some cm
                 \<and> GetClaimsCall ai \<in> set (snd (Interceptor a ctx req info handler))
                 \<longrightarrow> snd (GetClaims cm ai) = None"
    and deny: "\<forall>c cl t. AuthorizeCall c cl t \<in> set (snd (Interceptor a ctx req info handler))
                 \<longrightarrow> az c cl t
                       = (\<lparr>Decision = DecisionDeny, Reason = ''missing scope''\<rparr>, None)"
  shows "fst (Interceptor a ctx req info handler)
           = Inr (NilMessage, Some (PermissionDenied RequestUnauthorized ''missing scope''))
       \<and> (\<forall>c r. HandlerCall c r \<notin> set (snd (Interceptor a ctx req info handler)))
       \<and> (\<exists>c cl t. Authorize_calls (snd (Interceptor a ctx req info handler)) = [(c, cl, t)])"
proof -
  have outcome: ?thesis
    if blk1: "Interceptor_claims a ctx req info = (Continue cl c, tr1)"
      and quiet: "Authorize_calls tr1 = []" "counter_records tr1 = []"
        "timer_records tr1 = []" "\<forall>c r. HandlerCall c r \<notin> set tr1" for cl c tr1
    using blk1 quiet
  proof (cases rule: Interceptor_counted [where handler = handler])
    case disabled
    with az show ?thesis by simp
  next
    case (failed az' result e)
    from failed(4) have "AuthorizeCall c cl
        \<lparr>Namespace = (case req of WithNamespace n payload \<Rightarrow> n | _ \<Rightarrow> ''''),
         APIName = FullMethod info, Request = req\<rparr>
        \<in> set (snd (Interceptor a ctx req info handler))"
      by (simp add: in_Authorize_calls [symmetric])
    with deny failed(1,2) az show ?thesis by auto
  next
    case (denied az' result)
    from denied(5) have "AuthorizeCall c cl
        \<lparr>Namespace = (case req of WithNamespace n payload \<Rightarrow> n | _ \<Rightarrow> ''''),
         APIName = FullMethod info, Request = req\<rparr>
        \<in> set (snd (Interceptor a ctx req info handler))"
      by (simp add: in_Authorize_calls [symmetric])
    with deny denied(1,2) az
    have "result = \<lparr>Decision = DecisionDeny, Reason = ''missing scope''\<rparr>" by auto
    with denied(5,8,9) show ?thesis by simp
  next
    case (allowed az' result)
    from allowed(5) have "AuthorizeCall c cl
        \<lparr>Namespace = (case req of WithNamespace n payload \<Rightarrow> n | _ \<Rightarrow> ''''),
         APIName = FullMethod info, Request = req\<rparr>
        \<in> set (snd (Interceptor a ctx req info handler))"
      by (simp add: in_Authorize_calls [symmetric])
    with deny allowed(1,2) az
    have "result = \<lparr>Decision = DecisionDeny, Reason = ''missing scope''\<rparr>" by auto
    with allowed(3) show ?thesis by simp
  qed
  show ?thesis
  proof (cases rule: Interceptor_claims_cases [of a ctx req info])
    case skipped
    from skipped(2) show ?thesis by (rule outcome) (simp_all add: calls_simps)
  next
    case (rejected cm clientCert ai mc err aud)
    from Interceptor_rejected [OF rejected(8), of handler]
    have "GetClaimsCall ai \<in> set (snd (Interceptor a ctx req info handler))" by simp
    with maps rejected(1) have "snd (GetClaims cm ai) = None" by blast
    with rejected(6) show ?thesis by simp
  next
    case (mapped cm clientCert ai mc aud)
    note cnt = claims_trace_counted [OF mapped(7)]
    have nh: "\<forall>c r. HandlerCall c r \<notin> set (aud @ [GetClaimsCall ai])"
      using aud_events(1) [OF mapped(7)] by simp
    from mapped(8) cnt(2,3,4) nh show ?thesis by (rule outcome)
  qed
qed

theorem deny_reason_surfaced_witness:
  "authorizer (configured (Some cm_required) (Some az_deny_ns1)) = Some az_deny_ns1
   \<and> GetClaims_calls
        (snd (Interceptor (configured (Some cm_required) (Some az_deny_ns1)) ctx_mtls
                req_ns1 info_start handler_echo)) = [ai_alice]
   \<and> snd (GetClaims cm_required ai_alice) = None
   \<and> Authorize_calls
        (snd (Interceptor (configured (Some cm_required) (Some az_deny_ns1)) ctx_mtls
                req_ns1 info_start handler_echo)) = [(ctx_alice, Some '''', target_ns1)]
   \<and> az_deny_ns1 ctx_alice (Some '''') target_ns1
       = (\<lparr>Decision = DecisionDeny, Reason = ''missing scope''\<rparr>, None)
   \<and> fst (Interceptor (configured (Some cm_required) (Some az_deny_ns1)) ctx_mtls req_ns1
             info_start handler_echo)
       = Inr (NilMessage, Some (PermissionDenied RequestUnauthorized ''missing scope''))
   \<and> (\<forall>c r. HandlerCall c r
          \<notin> set (snd (Interceptor (configured (Some cm_required) (Some az_deny_ns1))
                        ctx_mtls req_ns1 info_start handler_echo)))"
proof -
  have h1: "authorizer (configured (Some cm_required) (Some az_deny_ns1)) = Some az_deny_ns1"
    by (simp add: configured_def)
  have g: "GetClaims_calls
        (snd (Interceptor (configured (Some cm_required) (Some az_deny_ns1)) ctx_mtls
                req_ns1 info_start handler_echo)) = [ai_alice]"
    by (simp add: run_deny_ns1 calls_simps)
  have gs: "snd (GetClaims cm_required ai_alice) = None"
    by (simp add: cm_required_def)
  have c: "Authorize_calls
        (snd (Interceptor (configured (Some cm_required) (Some az_deny_ns1)) ctx_mtls
                req_ns1 info_start handler_echo)) = [(ctx_alice, Some '''', target_ns1)]"
    by (simp add: run_deny_ns1 calls_simps)
  have d: "az_deny_ns1 ctx_alice (Some '''') target_ns1
       = (\<lparr>Decision = DecisionDeny, Reason = ''missing scope''\<rparr>, None)"
    by (simp add: az_deny_ns1_def target_ns1_def)
  have hc: "claimMapper (configured (Some cm_required) (Some az_deny_ns1)) = Some cm_required"
    by (simp add: configured_def)
  have h2: "\<forall>cm ai. claimMapper (configured (Some cm_required) (Some az_deny_ns1)) = Some cm
                 \<and> GetClaimsCall ai
                      \<in> set (snd (Interceptor (configured (Some cm_required)
                                     (Some az_deny_ns1)) ctx_mtls req_ns1 info_start
                                     handler_echo))
                 \<longrightarrow> snd (GetClaims cm ai) = None"
  proof (intro allI impI)
    fix cm ai
    assume A: "claimMapper (configured (Some cm_required) (Some az_deny_ns1)) = Some cm
                 \<and> GetClaimsCall ai
                      \<in> set (snd (Interceptor (configured (Some cm_required)
                                     (Some az_deny_ns1)) ctx_mtls req_ns1 info_start
                                     handler_echo))"
    from A hc have "cm = cm_required" by simp
    moreover from A have "ai = ai_alice"
      by (simp only: in_GetClaims_calls [symmetric] g) simp
    ultimately show "snd (GetClaims cm ai) = None" using gs by simp
  qed
  have h3: "\<forall>c cl t. AuthorizeCall c cl t
                      \<in> set (snd (Interceptor (configured (Some cm_required)
                                     (Some az_deny_ns1)) ctx_mtls req_ns1 info_start
                                     handler_echo))
                 \<longrightarrow> az_deny_ns1 c cl t
                       = (\<lparr>Decision = DecisionDeny, Reason = ''missing scope''\<rparr>, None)"
    using d by (simp only: in_Authorize_calls [symmetric] c) simp
  from deny_reason_surfaced [OF h1 h2 h3] h1 g gs c d
  show ?thesis by (intro conjI) simp_all
qed

subsection \<open>The namespace of the call\<close>

text \<open>
  C8, as stated, fails: when the claim mapper returns an error the call ends before the
  second block, so a configured authorizer is not called and no timer is recorded, also
  for a request in namespace "ns1".
\<close>

theorem failing_mapper_skips_authorizer:
  "req_ns1 = WithNamespace ''ns1'' ''start''
   \<and> authorizer (configured (Some cm_failing) (Some az_allow)) = Some az_allow
   \<and> Interceptor (configured (Some cm_failing) (Some az_allow)) ctx_token req_ns1
        info_start handler_echo
       = (Inr (NilMessage, Some errUnauthorized),
          [GetClaimsCall ai_tokA,
           LoggerError ''Authorization error'' (OtherError ''token expired'')])
   \<and> Authorize_calls
        (snd (Interceptor (configured (Some cm_failing) (Some az_allow)) ctx_token req_ns1
                info_start handler_echo)) = []
   \<and> timer_records
        (snd (Interceptor (configured (Some cm_failing) (Some az_allow)) ctx_token req_ns1
                info_start handler_echo)) = []"
proof -
  have "req_ns1 = WithNamespace ''ns1'' ''start''"
    by (simp add: req_ns1_def)
  moreover have "authorizer (configured (Some cm_failing) (Some az_allow)) = Some az_allow"
    by (simp add: configured_def)
  moreover have "Interceptor (configured (Some cm_failing) (Some az_allow)) ctx_token req_ns1
        info_start handler_echo
       = (Inr (NilMessage, Some errUnauthorized),
          [GetClaimsCall ai_tokA,
           LoggerError ''Authorization error'' (OtherError ''token expired'')])"
    by (simp add: run_mapper_fails errUnauthorized_def)
  moreover have "Authorize_calls
        (snd (Interceptor (configured (Some cm_failing) (Some az_allow)) ctx_token req_ns1
                info_start handler_echo)) = []"
    by (simp add: run_mapper_fails calls_simps)
  moreover have "timer_records
        (snd (Interceptor (configured (Some cm_failing) (Some az_allow)) ctx_token req_ns1
                info_start handler_echo)) = []"
    by (simp add: run_mapper_fails calls_simps)
  ultimately show ?thesis by (intro conjI)
qed

text \<open>
  C8, amended. For a request whose payload exposes a namespace accessor returning
  "ns1": the authorizer, when it is configured and unless the claim mapper returned an
  error (which ends the call before authorization), is called, exactly once, with a
  \<open>CallTarget\<close> whose namespace is "ns1", whose API name is the call's full method
  name and whose request is the request itself, and the latency timer is recorded once;
  every call of the authorizer has this target; every counter and the latency timer
  are recorded on the configured metrics handler scoped with the operation tag and the
  namespace tag "ns1", not the unknown-namespace tag. When the claim mapper returned an
  error the authorizer is not called. For any request, the handler the counters and the
  timer are recorded on is scoped with the unknown-namespace tag exactly when the
  namespace is empty.
\<close>

theorem namespace_scopes_authorization:
  assumes req: "req = WithNamespace ''ns1'' payload"
  shows
    "(\<forall>c cl t. AuthorizeCall c cl t \<in> set (snd (Interceptor a ctx req info handler))
        \<longrightarrow> Namespace t = ''ns1'' \<and> APIName t = FullMethod info \<and> Request t = req)
     \<and> (\<forall>h m v. CounterRecord h m v \<in> set (snd (Interceptor a ctx req info handler))
                  \<or> TimerRecord h m \<in> set (snd (Interceptor a ctx req info handler))
        \<longrightarrow> h = WithTags (metricsHandler a)
                   [OperationTag AuthorizationScope, NamespaceTag ''ns1'']
            \<and> h \<noteq> WithTags (metricsHandler a)
                   [OperationTag AuthorizationScope, NamespaceUnknownTag])
     \<and> (authorizer a \<noteq> None
         \<and> (\<forall>cm ai. claimMapper a = Some cm
                \<and> GetClaimsCall ai \<in> set (snd (Interceptor a ctx req info handler))
              \<longrightarrow> snd (GetClaims cm ai) = None)
        \<longrightarrow> (\<exists>c cl. Authorize_calls (snd (Interceptor a ctx req info handler))
                      = [(c, cl, \<lparr>Namespace = ''ns1'', APIName = FullMethod info,
                                  Request = req\<rparr>)])
            \<and> timer_records (snd (Interceptor a ctx req info handler))
                = [(WithTags (metricsHandler a)
                      [OperationTag AuthorizationScope, NamespaceTag ''ns1''],
                    ServiceAuthorizationLatency)])
     \<and> (\<forall>cm ai mc err.
           claimMapper a = Some cm
           \<and> GetClaimsCall ai \<in> set (snd (Interceptor a ctx req info handler))
           \<and> GetClaims cm ai = (mc, Some err)
        \<longrightarrow> Authorize_calls (snd (Interceptor a ctx req info handler)) = []
            \<and> timer_records (snd (Interceptor a ctx req info handler)) = [])
     \<and> (\<forall>req' h m v.
           CounterRecord h m v \<in> set (snd (Interceptor a ctx req' info handler))
           \<or> TimerRecord h m \<in> set (snd (Interceptor a ctx req' info handler))
        \<longrightarrow> (h = WithTags (metricsHandler a)
                    [OperationTag AuthorizationScope, NamespaceUnknownTag])
            = ((case req' of WithNamespace ns p \<Rightarrow> ns | _ \<Rightarrow> '''') = ''''))"
proof -
  have target: "\<forall>c cl t. AuthorizeCall c cl t \<in> set (snd (Interceptor a ctx req info handler))
        \<longrightarrow> Namespace t = ''ns1'' \<and> APIName t = FullMethod info \<and> Request t = req"
  proof (intro allI impI)
    fix c cl t
    assume "AuthorizeCall c cl t \<in> set (snd (Interceptor a ctx req info handler))"
    from authorizer_events(1) [OF this]
    show "Namespace t = ''ns1'' \<and> APIName t = FullMethod info \<and> Request t = req"
      by (simp add: req)
  qed
  have scoped: "\<forall>req' h m v.
           CounterRecord h m v \<in> set (snd (Interceptor a ctx req' info handler))
           \<or> TimerRecord h m \<in> set (snd (Interceptor a ctx req' info handler))
        \<longrightarrow> h = getMetricsHandler a AuthorizationScope
                   (case req' of WithNamespace n payload \<Rightarrow> n | _ \<Rightarrow> '''')"
    using authorizer_events(2,3) by blast
  have ns1: "\<forall>h m v. CounterRecord h m v \<in> set (snd (Interceptor a ctx req info handler))
                  \<or> TimerRecord h m \<in> set (snd (Interceptor a ctx req info handler))
        \<longrightarrow> h = WithTags (metricsHandler a)
                   [OperationTag AuthorizationScope, NamespaceTag ''ns1'']
            \<and> h \<noteq> WithTags (metricsHandler a)
                   [OperationTag AuthorizationScope, NamespaceUnknownTag]"
  proof (intro allI impI)
    fix h :: metrics_Handler and m v
    assume "CounterRecord h m v \<in> set (snd (Interceptor a ctx req info handler))
              \<or> TimerRecord h m \<in> set (snd (Interceptor a ctx req info handler))"
    with scoped have "h = getMetricsHandler a AuthorizationScope
                   (case req of WithNamespace n payload \<Rightarrow> n | _ \<Rightarrow> '''')"
      by blast
    then show "h = WithTags (metricsHandler a)
                   [OperationTag AuthorizationScope, NamespaceTag ''ns1'']
            \<and> h \<noteq> WithTags (metricsHandler a)
                   [OperationTag AuthorizationScope, NamespaceUnknownTag]"
      by (simp add: req getMetricsHandler_def WithTags_def)
  qed
  have h_ns1: "getMetricsHandler a AuthorizationScope
                 (case req of WithNamespace n payload \<Rightarrow> n | _ \<Rightarrow> '''')
               = WithTags (metricsHandler a)
                   [OperationTag AuthorizationScope, NamespaceTag ''ns1'']"
    by (simp add: req getMetricsHandler_def)
  have t_ns1: "\<lparr>Namespace = (case req of WithNamespace n payload \<Rightarrow> n | _ \<Rightarrow> ''''),
               APIName = FullMethod info, Request = req\<rparr>
              = \<lparr>Namespace = ''ns1'', APIName = FullMethod info, Request = req\<rparr>"
    by (simp add: req)
  have invoked: "authorizer a \<noteq> None
         \<and> (\<forall>cm ai. claimMapper a = Some cm
                \<and> GetClaimsCall ai \<in> set (snd (Interceptor a ctx req info handler))
              \<longrightarrow> snd (GetClaims cm ai) = None)
        \<longrightarrow> (\<exists>c cl. Authorize_calls (snd (Interceptor a ctx req info handler))
                      = [(c, cl, \<lparr>Namespace = ''ns1'', APIName = FullMethod info,
                                  Request = req\<rparr>)])
            \<and> timer_records (snd (Interceptor a ctx req info handler))
                = [(WithTags (metricsHandler a)
                      [OperationTag AuthorizationScope, NamespaceTag ''ns1''],
                    ServiceAuthorizationLatency)]"
  proof (cases rule: Interceptor_mapping_cases [of a ctx req info handler])
    case unmapped
    from unmapped(3) show ?thesis unfolding h_ns1 t_ns1 by auto
  next
    case (mapper_failed cm clientCert ai mc err)
    from mapper_failed(6)
    have "GetClaimsCall ai \<in> set (snd (Interceptor a ctx req info handler))"
      by (simp add: in_GetClaims_calls [symmetric])
    with mapper_failed(1,5) show ?thesis by auto
  next
    case (mapper_succeeded cm clientCert ai mc)
    from mapper_succeeded(7,8) show ?thesis unfolding h_ns1 t_ns1 by simp
  qed
  have failed: "\<forall>cm ai mc err.
           claimMapper a = Some cm
           \<and> GetClaimsCall ai \<in> set (snd (Interceptor a ctx req info handler))
           \<and> GetClaims cm ai = (mc, Some err)
        \<longrightarrow> Authorize_calls (snd (Interceptor a ctx req info handler)) = []
            \<and> timer_records (snd (Interceptor a ctx req info handler)) = []"
  proof (cases rule: Interceptor_mapping_cases [of a ctx req info handler])
    case unmapped
    from unmapped(2) show ?thesis by (simp add: in_GetClaims_calls [symmetric])
  next
    case (mapper_failed cm clientCert ai mc err)
    from mapper_failed(7,9) show ?thesis by simp
  next
    case (mapper_succeeded cm clientCert ai mc)
    from mapper_succeeded(1,5,6) show ?thesis
      by (auto simp: in_GetClaims_calls [symmetric])
  qed
  have unknown: "\<forall>req' h m v.
           CounterRecord h m v \<in> set (snd (Interceptor a ctx req' info handler))
           \<or> TimerRecord h m \<in> set (snd (Interceptor a ctx req' info handler))
        \<longrightarrow> (h = WithTags (metricsHandler a)
                    [OperationTag AuthorizationScope, NamespaceUnknownTag])
            = ((case req' of WithNamespace ns p \<Rightarrow> ns | _ \<Rightarrow> '''') = '''')"
  proof (intro allI impI)
    fix req' :: message and h :: metrics_Handler and m v
    assume "CounterRecord h m v \<in> set (snd (Interceptor a ctx req' info handler))
             \<or> TimerRecord h m \<in> set (snd (Interceptor a ctx req' info handler))"
    with scoped have "h = getMetricsHandler a AuthorizationScope
                     (case req' of WithNamespace n payload \<Rightarrow> n | _ \<Rightarrow> '''')"
      by blast
    then show "(h = WithTags (metricsHandler a)
                      [OperationTag AuthorizationScope, NamespaceUnknownTag])
              = ((case req' of WithNamespace ns p \<Rightarrow> ns | _ \<Rightarrow> '''') = '''')"
      by (simp add: getMetricsHandler_def WithTags_def)
  qed
  from target ns1 invoked failed unknown show ?thesis by (intro conjI)
qed

theorem namespace_scopes_authorization_witness:
  "req_ns1 = WithNamespace ''ns1'' ''start''
   \<and> authorizer (configured (Some cm_token) (Some az_allow)) \<noteq> None
   \<and> GetClaims_calls
        (snd (Interceptor (configured (Some cm_token) (Some az_allow)) ctx_token req_ns1
                info_start handler_echo)) = [ai_tokA]
   \<and> snd (GetClaims cm_token ai_tokA) = None
   \<and> (\<exists>c cl. Authorize_calls
                (snd (Interceptor (configured (Some cm_token) (Some az_allow)) ctx_token
                        req_ns1 info_start handler_echo))
              = [(c, cl, \<lparr>Namespace = ''ns1'', APIName = FullMethod info_start,
                          Request = req_ns1\<rparr>)])"
proof -
  have h1: "req_ns1 = WithNamespace ''ns1'' ''start''"
    by (simp add: req_ns1_def)
  have h2: "authorizer (configured (Some cm_token) (Some az_allow)) \<noteq> None"
    by (simp add: configured_def)
  have hc: "claimMapper (configured (Some cm_token) (Some az_allow)) = Some cm_token"
    by (simp add: configured_def)
  have g: "GetClaims_calls
        (snd (Interceptor (configured (Some cm_token) (Some az_allow)) ctx_token req_ns1
                info_start handler_echo)) = [ai_tokA]"
    by (simp add: run_token_allow calls_simps)
  have gs: "snd (GetClaims cm_token ai_tokA) = None"
    by (simp add: cm_token_def)
  have h3: "\<forall>cm ai. claimMapper (configured (Some cm_token) (Some az_allow)) = Some cm
                \<and> GetClaimsCall ai
                     \<in> set (snd (Interceptor (configured (Some cm_token) (Some az_allow))
                                   ctx_token req_ns1 info_start handler_echo))
              \<longrightarrow> snd (GetClaims cm ai) = None"
  proof (intro allI impI)
    fix cm ai
    assume A: "claimMapper (configured (Some cm_token) (Some az_allow)) = Some cm
                \<and> GetClaimsCall ai
                     \<in> set (snd (Interceptor (configured (Some cm_token) (Some az_allow))
                                   ctx_token req_ns1 info_start handler_echo))"
    from A hc have "cm = cm_token" by simp
    moreover from A have "ai = ai_tokA"
      by (simp only: in_GetClaims_calls [symmetric] g) simp
    ultimately show "snd (GetClaims cm ai) = None" using gs by simp
  qed
  note invoked =
    namespace_scopes_authorization
      [OF h1, of "configured (Some cm_token) (Some az_allow)" ctx_token info_start
          handler_echo,
       THEN conjunct2, THEN conjunct2, THEN conjunct1, rule_format, OF conjI [OF h2 h3],
       THEN conjunct1]
  from h1 h2 g gs invoked show ?thesis by (intro conjI)
qed

subsection \<open>The two context slots\<close>

text \<open>
  C9. For every call that is forwarded to the handler, the context the handler receives
  is the incoming one with the values the interceptor attached on top, and among these
  the \<open>AuthHeader\<close> slot is present only together with the \<open>MappedClaims\<close> slot; so
  when the incoming context has no \<open>AuthHeader\<close> value and the handler's context has
  one, the handler's context has a \<open>MappedClaims\<close> value too. Whenever the claim mapper
  was called and returned no error, the claims it returned are attached under
  \<open>MappedClaims\<close> (also when the returned pointer is nil), and the raw primary header
  value, the first value of the header, is attached under \<open>AuthHeader\<close> exactly when
  it is a non-empty string.
\<close>

theorem AuthHeader_slot_needs_MappedClaims_slot:
  assumes fwd: "HandlerCall ctx' r \<in> set (snd (Interceptor a ctx req info handler))"
  shows
    "(\<exists>added. ctx' = ctx\<lparr>ctx_values := added @ ctx_values ctx\<rparr>
         \<and> (AuthHeader \<in> fst ` set added \<longrightarrow> MappedClaims \<in> fst ` set added))
     \<and> (Value ctx AuthHeader = None \<and> Value ctx' AuthHeader \<noteq> None
          \<longrightarrow> Value ctx' MappedClaims \<noteq> None)
     \<and> (\<forall>cm ai mc.
           claimMapper a = Some cm
           \<and> GetClaimsCall ai \<in> set (snd (Interceptor a ctx req info handler))
           \<and> GetClaims cm ai = (mc, None)
          \<longrightarrow> Value ctx' MappedClaims = Some (ClaimsValue mc)
              \<and> AuthToken ai
                  = (case header_values ctx (authHeaderName a) of [] \<Rightarrow> '''' | v # _ \<Rightarrow> v)
              \<and> ctx' = (if AuthToken ai \<noteq> ''''
                        then WithValue (WithValue ctx MappedClaims (ClaimsValue mc))
                               AuthHeader (StringValue (AuthToken ai))
                        else WithValue ctx MappedClaims (ClaimsValue mc)))"
proof -
  from fwd [THEN disjI1] show ?thesis
  proof (cases rule: passed_context_cases)
    case unchanged
    have "ctx' = ctx\<lparr>ctx_values := [] @ ctx_values ctx\<rparr>
         \<and> (AuthHeader \<in> fst ` set [] \<longrightarrow> MappedClaims \<in> fst ` set [])"
      by (simp add: unchanged(1))
    then have c1: "\<exists>added. ctx' = ctx\<lparr>ctx_values := added @ ctx_values ctx\<rparr>
         \<and> (AuthHeader \<in> fst ` set added \<longrightarrow> MappedClaims \<in> fst ` set added)"
      by (rule exI)
    have c2: "Value ctx AuthHeader = None \<and> Value ctx' AuthHeader \<noteq> None
          \<longrightarrow> Value ctx' MappedClaims \<noteq> None"
      unfolding unchanged(1) by blast
    have c3: "\<forall>cm ai mc.
           claimMapper a = Some cm
           \<and> GetClaimsCall ai \<in> set (snd (Interceptor a ctx req info handler))
           \<and> GetClaims cm ai = (mc, None)
          \<longrightarrow> Value ctx' MappedClaims = Some (ClaimsValue mc)
              \<and> AuthToken ai
                  = (case header_values ctx (authHeaderName a) of [] \<Rightarrow> '''' | v # _ \<Rightarrow> v)
              \<and> ctx' = (if AuthToken ai \<noteq> ''''
                        then WithValue (WithValue ctx MappedClaims (ClaimsValue mc))
                               AuthHeader (StringValue (AuthToken ai))
                        else WithValue ctx MappedClaims (ClaimsValue mc))"
      using unchanged(2) by blast
    from c1 c2 c3 show ?thesis by (intro conjI)
  next
    case (enriched cm clientCert ai mc)
    define added where "added = (if AuthToken ai \<noteq> ''''
        then [(AuthHeader, StringValue (AuthToken ai)), (MappedClaims, ClaimsValue mc)]
        else [(MappedClaims, ClaimsValue mc)])"
    have "ctx' = ctx\<lparr>ctx_values := added @ ctx_values ctx\<rparr>
         \<and> (AuthHeader \<in> fst ` set added \<longrightarrow> MappedClaims \<in> fst ` set added)"
      by (simp add: enriched(8) added_def WithValue_def)
    then have c1: "\<exists>added. ctx' = ctx\<lparr>ctx_values := added @ ctx_values ctx\<rparr>
         \<and> (AuthHeader \<in> fst ` set added \<longrightarrow> MappedClaims \<in> fst ` set added)"
      by (rule exI)
    have c2: "Value ctx' MappedClaims = Some (ClaimsValue mc)"
      by (simp add: enriched(8) Value_WithValue)
    have c3: "\<forall>cm' ai' mc'.
           claimMapper a = Some cm'
           \<and> GetClaimsCall ai' \<in> set (snd (Interceptor a ctx req info handler))
           \<and> GetClaims cm' ai' = (mc', None)
          \<longrightarrow> cm' = cm \<and> ai' = ai \<and> mc' = mc"
      using enriched(1,6,7) by auto
    have tok: "AuthToken ai
                  = (case header_values ctx (authHeaderName a) of [] \<Rightarrow> '''' | v # _ \<Rightarrow> v)"
      by (simp add: enriched(5) first_or_empty_def)
    from c1 c2 c3 tok enriched(8) show ?thesis by blast
  qed
qed

theorem AuthHeader_slot_needs_MappedClaims_slot_witness:
  "HandlerCall ctx_tokA req_ns1
     \<in> set (snd (Interceptor (configured (Some cm_token) (Some az_allow)) ctx_token req_ns1
                   info_start handler_echo))
   \<and> Value ctx_token AuthHeader = None
   \<and> Value ctx_tokA AuthHeader = Some (StringValue ''tokA'')
   \<and> Value ctx_tokA MappedClaims \<noteq> None"
proof -
  have h1: "HandlerCall ctx_tokA req_ns1
     \<in> set (snd (Interceptor (configured (Some cm_token) (Some az_allow)) ctx_token req_ns1
                   info_start handler_echo))"
    by (simp add: run_token_allow)
  have h2: "Value ctx_token AuthHeader = None"
    by (simp add: Value_def ctx_token_def)
  have h3: "Value ctx_tokA AuthHeader = Some (StringValue ''tokA'')"
    by (simp add: ctx_tokA_def Value_WithValue)
  from AuthHeader_slot_needs_MappedClaims_slot [OF h1] h2 h3
  have "Value ctx_tokA MappedClaims \<noteq> None"
    by simp
  with h1 h2 h3 show ?thesis by (intro conjI)
qed

end

